theory Spec2Isabelle
  imports Main
begin

text \<open>
  A shallow embedding of the agentic tool-use loop of the application and of the two
  clients under it: \<^verbatim>\<open>chat\<close> and \<^verbatim>\<open>sendMessage\<close> of src/lib/llm.ts,
  \<^verbatim>\<open>mcpRequest\<close> of src/lib/cdata.ts, and the credential manager of the
  \<^verbatim>\<open>CDataProvider\<close> component (\<^verbatim>\<open>doRefreshToken\<close>, \<^verbatim>\<open>getValidToken\<close>,
  \<^verbatim>\<open>withAutoRefresh\<close>). Asynchronous code is followed one task at a time: an
  \<^verbatim>\<open>await\<close> is a step of the world, a rejected promise is a thrown value, and every
  function returns the state it leaves next to its result.
\<close>

section \<open>JavaScript values and string operations\<close>

text \<open>
  A value that a JavaScript \<^verbatim>\<open>throw\<close> or a rejected promise carries. The sources
  only ever ask whether it is an \<^verbatim>\<open>Error\<close> instance and, if so, read its
  \<^verbatim>\<open>message\<close>.
\<close>

datatype thrown = Error string | NonError

text \<open>
  Values of TypeScript type \<^verbatim>\<open>unknown\<close> and \<^verbatim>\<open>Record<string, unknown>\<close> that
  travel as JSON, and the values that \<^verbatim>\<open>JSON.parse\<close> yields. Numbers are integers.
  Where a value may also be \<^verbatim>\<open>undefined\<close> the model uses \<open>json option\<close>, with
  \<open>None\<close> for \<^verbatim>\<open>undefined\<close>.
\<close>

datatype json =
    JNull
  | JBool bool
  | JNumber int
  | JString string
  | JArray "json list"
  | JObject "(string \<times> json) list"

text \<open>Truthiness, as \<^verbatim>\<open>||\<close>, \<^verbatim>\<open>!\<close> and \<^verbatim>\<open>if\<close> read a value.\<close>

fun truthy :: "json \<Rightarrow> bool" where
  "truthy JNull = False"
| "truthy (JBool b) = b"
| "truthy (JNumber n) = (n \<noteq> 0)"
| "truthy (JString s) = (s \<noteq> [])"
| "truthy (JArray xs) = True"
| "truthy (JObject kvs) = True"

text \<open>
  The read \<^verbatim>\<open>v.key\<close> of a property of a value other than \<^verbatim>\<open>null\<close>, for the keys
  the sources read (\<^verbatim>\<open>error\<close>, \<^verbatim>\<open>result\<close>, \<^verbatim>\<open>message\<close>): an object
  gives what it holds under the key (the last entry, where a key is written twice),
  every other value gives \<^verbatim>\<open>undefined\<close>.
\<close>

definition get_prop :: "json \<Rightarrow> string \<Rightarrow> json option" where
  "get_prop v key = (case v of JObject kvs \<Rightarrow> map_of (rev kvs) key | _ \<Rightarrow> None)"

text \<open>\<^verbatim>\<open>s.startsWith(p)\<close>\<close>

definition startsWith :: "string \<Rightarrow> string \<Rightarrow> bool" where
  "startsWith s p = (take (length p) s = p)"

text \<open>\<^verbatim>\<open>s.includes(p)\<close>: \<open>p\<close> occurs in \<open>s\<close> as a contiguous substring.\<close>

fun includes_str :: "string \<Rightarrow> string \<Rightarrow> bool" where
  "includes_str [] p = (p = [])"
| "includes_str (c # cs) p = (startsWith (c # cs) p \<or> includes_str cs p)"

text \<open>
  \<^verbatim>\<open>s.trim()\<close> removes white space and line terminators at both ends. A string
  of the model is a list of 8-bit characters, each one a code unit below 256. The
  characters that \<^verbatim>\<open>trim\<close> strips in that range are tab, line feed, vertical tab,
  form feed, carriage return, space and the no-break space U+00A0; the others it
  strips (U+FEFF, U+1680, U+2000 to U+200A, U+2028, U+2029, U+202F, U+205F, U+3000)
  lie above the range.
\<close>

definition js_whitespace :: "char \<Rightarrow> bool" where
  "js_whitespace c =
     (c \<in> set [CHR 0x09, CHR 0x0A, CHR 0x0B, CHR 0x0C, CHR 0x0D, CHR 0x20, CHR 0xA0])"

definition trim :: "string \<Rightarrow> string" where
  "trim s = rev (dropWhile js_whitespace (rev (dropWhile js_whitespace s)))"

text \<open>
  \<^verbatim>\<open>s.toLowerCase()\<close> on code units below 256: the letters A to Z, and the
  letters U+00C0 to U+00DE but for the multiplication sign U+00D7, move up by 32.
\<close>

definition lower_char :: "char \<Rightarrow> char" where
  "lower_char c =
     (let n = (of_char c :: nat) in
      if (65 \<le> n \<and> n \<le> 90) \<or> (192 \<le> n \<and> n \<le> 222 \<and> n \<noteq> 215)
      then char_of (n + 32) else c)"

definition toLowerCase :: "string \<Rightarrow> string" where
  "toLowerCase s = map lower_char s"

text \<open>\<^verbatim>\<open>s.split(d)\<close> for a one-character separator: never the empty list.\<close>

fun split_on :: "char \<Rightarrow> string \<Rightarrow> string list" where
  "split_on d [] = [[]]"
| "split_on d (c # cs) =
     (if c = d then [] # split_on d cs
      else (case split_on d cs of
              [] \<Rightarrow> [[c]]
            | l # ls \<Rightarrow> (c # l) # ls))"

text \<open>\<^verbatim>\<open>xs.join(sep)\<close>\<close>

fun join_with :: "string \<Rightarrow> string list \<Rightarrow> string" where
  "join_with sep [] = []"
| "join_with sep [x] = x"
| "join_with sep (x # y # ys) = x @ sep @ join_with sep (y # ys)"

text \<open>A natural number in a template literal: its decimal digits.\<close>

definition digit_char :: "nat \<Rightarrow> char" where
  "digit_char d = char_of (48 + d)"

function show_nat :: "nat \<Rightarrow> string" where
  "show_nat n = (if n < 10 then [digit_char n] else show_nat (n div 10) @ [digit_char (n mod 10)])"
  by pat_completeness auto
termination
  by (relation "measure id") auto

declare show_nat.simps [simp del]

section \<open>The reasoning-engine client (src/lib/llm.ts)\<close>

subsection \<open>Data\<close>

record MCPTool =
  mt_name :: string
  mt_description :: "string option"
  mt_inputSchema :: "json option"

record AnthropicTool =
  at_name :: string
  at_description :: string
  at_input_schema :: json

datatype block_type = type_text | type_tool_use | type_tool_result

text \<open>
  \<^verbatim>\<open>AnthropicContentBlock\<close>: every field but the type tag is optional. The type
  guard of \<^verbatim>\<open>chat\<close> tests the tag only, so a block tagged \<^verbatim>\<open>tool_use\<close> may still
  lack an id, a name or an input at run time.
\<close>

record AnthropicContentBlock =
  b_type :: block_type
  b_text :: "string option"
  b_id :: "string option"
  b_name :: "string option"
  b_input :: "json option"
  b_tool_use_id :: "string option"
  b_content :: "string option"

datatype role = user | assistant

datatype message_content = ContentString string | ContentBlocks "AnthropicContentBlock list"

record AnthropicMessage =
  m_role :: role
  m_content :: message_content

datatype stop_reason = end_turn | tool_use | max_tokens

text \<open>
  Token counts are JavaScript numbers holding integers; they are modelled as
  unbounded integers (addition of such numbers is exact below \<open>2^53\<close>).
\<close>

record usage =
  input_tokens :: int
  output_tokens :: int

text \<open>
  \<^verbatim>\<open>usage\<close> is optional in the model because \<^verbatim>\<open>chat\<close> tests
  \<^verbatim>\<open>if (responseData.usage)\<close> before reading it.
\<close>

record AnthropicResponse =
  r_id :: string
  r_content :: "AnthropicContentBlock list"
  r_stop_reason :: stop_reason
  r_usage :: "usage option"

text \<open>
  The request body. In \<^verbatim>\<open>sendMessage\<close> its \<^verbatim>\<open>messages\<close> field is a reference to
  the array that \<^verbatim>\<open>chat\<close> keeps pushing to: the log entry holds the reference
  (\<open>'m = nat\<close>, an address of the store below), the wire holds the contents at the
  time \<^verbatim>\<open>JSON.stringify(requestBody)\<close> runs (\<open>'m = AnthropicMessage list\<close>).
\<close>

record 'm request_body =
  rb_model :: string
  rb_max_tokens :: nat
  rb_system :: string
  rb_tools :: "AnthropicTool list"
  rb_messages :: 'm

datatype entry_type = request | response

datatype entry_data = RequestData "nat request_body" | ResponseData AnthropicResponse

record LLMLogEntry =
  e_timestamp :: int
  e_type :: entry_type
  e_data :: entry_data
  e_duration :: "int option"

record LLMDebugLogs =
  entries :: "LLMLogEntry list"
  totalDuration :: int
  totalInputTokens :: int
  totalOutputTokens :: int

datatype update_type = thinking | tool_start | tool_complete | tool_error

record InterimUpdate =
  u_type :: update_type
  u_content :: "string option"
  u_toolName :: "string option"
  u_toolInput :: "json option"
  u_toolResult :: "json option"
  u_error :: "string option"

record chat_result =
  res_response :: string
  res_toolCalls :: "(string option \<times> json option) list"
  res_debugLogs :: LLMDebugLogs

subsection \<open>The environment of a run\<close>

text \<open>
  What one \<^verbatim>\<open>fetch\<close> of the reasoning engine, followed by reading the body, comes
  to: an awaited promise rejects (\<^verbatim>\<open>fetch\<close>, \<^verbatim>\<open>response.text()\<close> or
  \<^verbatim>\<open>response.json()\<close>; the thrown value propagates unchanged from any of them),
  the status is not ok (with the status and the body text), or the body parses.
\<close>

datatype fetch_outcome =
    Rejected thrown
  | Not_ok nat string
  | Ok_json AnthropicResponse

text \<open>
  Everything outside the module is a world of type \<open>'w\<close>: the network, the remote
  services, the clock. The environment gives the two build-time variables read by
  \<^verbatim>\<open>getConfig\<close>, the system prompt (the constant text of lines 156 to 168 of
  llm.ts), the POST to the reasoning engine, \<^verbatim>\<open>Date.now()\<close> and
  \<^verbatim>\<open>JSON.stringify\<close> (which throws on some values and yields \<^verbatim>\<open>undefined\<close> on
  others).
\<close>

record 'w chat_env =
  VITE_ANTHROPIC_API_KEY :: "string option"
  VITE_ANTHROPIC_MODEL :: "string option"
  system_prompt :: string
  fetch_engine :: "AnthropicMessage list request_body \<Rightarrow> 'w \<Rightarrow> 'w \<times> fetch_outcome"
  now :: "'w \<Rightarrow> int"
  JSON_stringify :: "json option \<Rightarrow> thrown + string option"

text \<open>
  The two callbacks the caller passes to \<^verbatim>\<open>chat\<close>. \<^verbatim>\<open>callTool\<close> acts on the world
  and resolves (\<open>Inr\<close>) or fails (\<open>Inl\<close>: it rejects, or throws before it returns a
  promise; the \<^verbatim>\<open>try\<close> around the awaited call catches both). \<^verbatim>\<open>onInterimUpdate\<close>
  is optional; it acts on the world and returns normally (\<open>None\<close>) or throws
  (\<open>Some\<close>).
\<close>

type_synonym 'w callTool = "string option \<Rightarrow> json option \<Rightarrow> 'w \<Rightarrow> 'w \<times> (thrown + json option)"

type_synonym 'w onInterimUpdate = "(InterimUpdate \<Rightarrow> 'w \<Rightarrow> 'w \<times> thrown option) option"

text \<open>
  The calls made to the two callbacks, in order, are recorded in a trace: each progress
  update handed to \<^verbatim>\<open>onInterimUpdate\<close> (whether the callback then returns or
  throws), and each invocation of \<^verbatim>\<open>callTool\<close> with its arguments and its outcome.
\<close>

datatype event =
    Update InterimUpdate
  | Invoke "string option" "json option" "thrown + json option"

text \<open>
  The state of a run. \<open>store\<close> holds the arrays of messages, each at its address (its
  index): the caller's \<^verbatim>\<open>conversationHistory\<close> lives there, and \<^verbatim>\<open>chat\<close> allocates
  its own \<^verbatim>\<open>messages\<close> array there. \<open>toolCalls\<close> and \<open>logEntries\<close> are the local
  arrays of \<^verbatim>\<open>chat\<close>.
\<close>

record 'w run =
  world :: 'w
  store :: "AnthropicMessage list list"
  toolCalls :: "(string option \<times> json option) list"
  logEntries :: "LLMLogEntry list"
  trace :: "event list"

definition push_message :: "nat \<Rightarrow> AnthropicMessage \<Rightarrow> 'w run \<Rightarrow> 'w run" where
  "push_message a m st = st\<lparr>store := (store st)[a := store st ! a @ [m]]\<rparr>"

subsection \<open>Configuration and tool declarations\<close>

definition default_model :: string where
  "default_model = ''claude-sonnet-4-20250514''"

definition getConfig :: "'w chat_env \<Rightarrow> string \<times> string" where
  "getConfig env =
     ((case VITE_ANTHROPIC_API_KEY env of None \<Rightarrow> [] | Some k \<Rightarrow> k),
      (case VITE_ANTHROPIC_MODEL env of
         None \<Rightarrow> default_model
       | Some m \<Rightarrow> if m = [] then default_model else m))"

definition hasLLMConfig :: "'w chat_env \<Rightarrow> bool" where
  "hasLLMConfig env = (fst (getConfig env) \<noteq> [])"

definition default_input_schema :: json where
  "default_input_schema = JObject [(''type'', JString ''object''), (''properties'', JObject [])]"

definition mcpToolsToAnthropic :: "MCPTool list \<Rightarrow> AnthropicTool list" where
  "mcpToolsToAnthropic mcpTools =
     map (\<lambda>tool.
       \<lparr>at_name = mt_name tool,
        at_description =
          (case mt_description tool of
             None \<Rightarrow> ''Tool: '' @ mt_name tool
           | Some d \<Rightarrow> if d = [] then ''Tool: '' @ mt_name tool else d),
        at_input_schema =
          (case mt_inputSchema tool of
             None \<Rightarrow> default_input_schema
           | Some s \<Rightarrow> if truthy s then s else default_input_schema)\<rparr>) mcpTools"

subsection \<open>sendMessage\<close>

text \<open>
  \<^verbatim>\<open>chat\<close> is the only caller and always passes its log collector, so the collector
  is not optional here.
\<close>

definition sendMessage ::
  "'w chat_env \<Rightarrow> nat \<Rightarrow> AnthropicTool list \<Rightarrow> string \<Rightarrow> 'w run
     \<Rightarrow> 'w run \<times> (thrown + AnthropicResponse)" where
  "sendMessage env messages tools sys st =
     (let (apiKey, model) = getConfig env in
      if apiKey = [] then (st, Inl (Error ''Anthropic API key not configured''))
      else
        let requestTimestamp = now env (world st);
            st1 = st\<lparr>logEntries := logEntries st @
                    [\<lparr>e_timestamp = requestTimestamp, e_type = request,
                      e_data = RequestData
                        \<lparr>rb_model = model, rb_max_tokens = 4096, rb_system = sys,
                         rb_tools = tools, rb_messages = messages\<rparr>,
                      e_duration = None\<rparr>]\<rparr>;
            (w, outcome) = fetch_engine env
                    \<lparr>rb_model = model, rb_max_tokens = 4096, rb_system = sys,
                     rb_tools = tools, rb_messages = store st ! messages\<rparr> (world st);
            st2 = st1\<lparr>world := w\<rparr>
        in case outcome of
             Rejected e \<Rightarrow> (st2, Inl e)
           | Not_ok status body \<Rightarrow>
               (st2, Inl (Error (''Anthropic API error: '' @ show_nat status @ '' - '' @ body)))
           | Ok_json responseData \<Rightarrow>
               (let responseTimestamp = now env w in
                (st2\<lparr>logEntries := logEntries st2 @
                    [\<lparr>e_timestamp = responseTimestamp, e_type = response,
                      e_data = ResponseData responseData,
                      e_duration = Some (responseTimestamp - requestTimestamp)\<rparr>]\<rparr>,
                 Inr responseData)))"

subsection \<open>One round of tool execution\<close>

text \<open>
  A call \<^verbatim>\<open>if (onInterimUpdate) onInterimUpdate(u)\<close>: the state after it, and the
  value the callback threw, if it threw.
\<close>

definition notify :: "'w onInterimUpdate \<Rightarrow> InterimUpdate \<Rightarrow> 'w run \<Rightarrow> 'w run \<times> thrown option" where
  "notify onInterimUpdate u st =
     (case onInterimUpdate of
        None \<Rightarrow> (st, None)
      | Some f \<Rightarrow>
          (let (w, t) = f u (world st)
           in (st\<lparr>world := w, trace := trace st @ [Update u]\<rparr>, t)))"

definition errorMsg_of :: "thrown \<Rightarrow> string" where
  "errorMsg_of err = (case err of Error m \<Rightarrow> m | NonError \<Rightarrow> ''Unknown error'')"

text \<open>
  The \<^verbatim>\<open>catch\<close> block of the tool loop. It is outside every \<^verbatim>\<open>try\<close>: what the
  \<^verbatim>\<open>tool_error\<close> notification throws leaves \<^verbatim>\<open>chat\<close> (\<open>Inl\<close>).
\<close>

definition tool_failed ::
  "'w onInterimUpdate \<Rightarrow> AnthropicContentBlock \<Rightarrow> thrown \<Rightarrow> 'w run
     \<Rightarrow> AnthropicContentBlock list \<Rightarrow> 'w run \<times> (thrown + AnthropicContentBlock list)" where
  "tool_failed onInterimUpdate toolUse err st toolResults =
     (let errorMsg = errorMsg_of err;
          pushed = toolResults @
            [\<lparr>b_type = type_tool_result, b_text = None, b_id = None, b_name = None,
              b_input = None, b_tool_use_id = b_id toolUse,
              b_content = Some (''Error: '' @ errorMsg)\<rparr>]
      in case notify onInterimUpdate
                \<lparr>u_type = tool_error, u_content = None, u_toolName = b_name toolUse,
                 u_toolInput = None, u_toolResult = None, u_error = Some errorMsg\<rparr> st of
           (st1, Some thrown_by_callback) \<Rightarrow> (st1, Inl thrown_by_callback)
         | (st1, None) \<Rightarrow> (st1, Inr pushed))"

text \<open>
  The body of the \<^verbatim>\<open>for\<close> loop over the tool-use blocks. The \<^verbatim>\<open>tool_start\<close>
  notification is outside the \<^verbatim>\<open>try\<close>. Inside it are the awaited call, the push to
  \<^verbatim>\<open>toolCalls\<close>, \<^verbatim>\<open>JSON.stringify\<close> with the push of the result, and the
  \<^verbatim>\<open>tool_complete\<close> notification: whatever one of them throws goes to the
  \<^verbatim>\<open>catch\<close> block, with the pushes made so far in place.
\<close>

definition execute_tool ::
  "'w chat_env \<Rightarrow> 'w callTool \<Rightarrow> 'w onInterimUpdate \<Rightarrow> AnthropicContentBlock \<Rightarrow> 'w run
     \<Rightarrow> AnthropicContentBlock list \<Rightarrow> 'w run \<times> (thrown + AnthropicContentBlock list)" where
  "execute_tool env callTool onInterimUpdate toolUse st toolResults =
     (case notify onInterimUpdate
             \<lparr>u_type = tool_start, u_content = None, u_toolName = b_name toolUse,
              u_toolInput = b_input toolUse, u_toolResult = None, u_error = None\<rparr> st of
        (st1, Some thrown_by_callback) \<Rightarrow> (st1, Inl thrown_by_callback)
      | (st1, None) \<Rightarrow>
          (let (w, outcome) = callTool (b_name toolUse) (b_input toolUse) (world st1);
               st2 = st1\<lparr>world := w,
                         trace := trace st1 @ [Invoke (b_name toolUse) (b_input toolUse) outcome]\<rparr>
           in case outcome of
                Inl err \<Rightarrow> tool_failed onInterimUpdate toolUse err st2 toolResults
              | Inr result \<Rightarrow>
                  (let st3 = st2\<lparr>toolCalls := toolCalls st2 @ [(b_name toolUse, result)]\<rparr>
                   in case JSON_stringify env result of
                        Inl err \<Rightarrow> tool_failed onInterimUpdate toolUse err st3 toolResults
                      | Inr content \<Rightarrow>
                          (let pushed = toolResults @
                                 [\<lparr>b_type = type_tool_result, b_text = None, b_id = None,
                                   b_name = None, b_input = None, b_tool_use_id = b_id toolUse,
                                   b_content = content\<rparr>]
                           in case notify onInterimUpdate
                                     \<lparr>u_type = tool_complete, u_content = None,
                                      u_toolName = b_name toolUse, u_toolInput = None,
                                      u_toolResult = result, u_error = None\<rparr> st3 of
                                (st4, None) \<Rightarrow> (st4, Inr pushed)
                              | (st4, Some err) \<Rightarrow>
                                  tool_failed onInterimUpdate toolUse err st4 pushed))))"

fun execute_tools ::
  "'w chat_env \<Rightarrow> 'w callTool \<Rightarrow> 'w onInterimUpdate \<Rightarrow> AnthropicContentBlock list
     \<Rightarrow> 'w run \<Rightarrow> AnthropicContentBlock list
     \<Rightarrow> 'w run \<times> (thrown + AnthropicContentBlock list)" where
  "execute_tools env callTool onInterimUpdate [] st toolResults = (st, Inr toolResults)"
| "execute_tools env callTool onInterimUpdate (toolUse # rest) st toolResults =
     (case execute_tool env callTool onInterimUpdate toolUse st toolResults of
        (st1, Inl e) \<Rightarrow> (st1, Inl e)
      | (st1, Inr pushed) \<Rightarrow> execute_tools env callTool onInterimUpdate rest st1 pushed)"

definition text_of :: "AnthropicContentBlock \<Rightarrow> string" where
  "text_of block = (case b_text block of None \<Rightarrow> [] | Some t \<Rightarrow> t)"

definition joined_text :: "AnthropicContentBlock list \<Rightarrow> string" where
  "joined_text content =
     join_with [CHR 0x0A] (map text_of (filter (\<lambda>block. b_type block = type_text) content))"

text \<open>The part of the loop body before the tools run: the thinking update.\<close>

definition emit_thinking ::
  "'w onInterimUpdate \<Rightarrow> AnthropicResponse \<Rightarrow> 'w run \<Rightarrow> 'w run \<times> thrown option" where
  "emit_thinking onInterimUpdate resp st =
     (let textBlocks = filter (\<lambda>block. b_type block = type_text) (r_content resp) in
      if textBlocks \<noteq> [] \<and> onInterimUpdate \<noteq> None then
        (let thinking_text = join_with [CHR 0x0A] (map text_of textBlocks) in
         if trim thinking_text \<noteq> [] then
           notify onInterimUpdate
             \<lparr>u_type = thinking, u_content = Some thinking_text, u_toolName = None,
              u_toolInput = None, u_toolResult = None, u_error = None\<rparr> st
         else (st, None))
      else (st, None))"

definition toolUseBlocks_of :: "AnthropicResponse \<Rightarrow> AnthropicContentBlock list" where
  "toolUseBlocks_of resp = filter (\<lambda>block. b_type block = type_tool_use) (r_content resp)"

text \<open>
  The body of the \<^verbatim>\<open>while\<close> loop up to the two pushes; the next \<^verbatim>\<open>sendMessage\<close>
  follows in \<open>chat_loop\<close>. The result holds the value that left the body by a
  throw, if one did (\<open>Some\<close>); the two pushes are made only when none did.
\<close>

definition chat_round ::
  "'w chat_env \<Rightarrow> 'w callTool \<Rightarrow> 'w onInterimUpdate \<Rightarrow> nat \<Rightarrow> AnthropicResponse
     \<Rightarrow> 'w run \<Rightarrow> 'w run \<times> thrown option" where
  "chat_round env callTool onInterimUpdate messages resp st =
     (case emit_thinking onInterimUpdate resp st of
        (st1, Some e) \<Rightarrow> (st1, Some e)
      | (st1, None) \<Rightarrow>
          (case execute_tools env callTool onInterimUpdate (toolUseBlocks_of resp) st1 [] of
             (st2, Inl e) \<Rightarrow> (st2, Some e)
           | (st2, Inr toolResults) \<Rightarrow>
               (push_message messages \<lparr>m_role = user, m_content = ContentBlocks toolResults\<rparr>
                  (push_message messages
                     \<lparr>m_role = assistant, m_content = ContentBlocks (r_content resp)\<rparr> st2),
                None)))"

subsection \<open>The agentic loop\<close>

text \<open>
  The \<^verbatim>\<open>while\<close> loop has no bound on its rounds: an engine that asks for tools for
  ever keeps it running. The loop is therefore a partial function; \<open>None\<close> is a run
  that never returns. A run that ends gives the final state and either the thrown
  value or the last response.
\<close>

partial_function (option) chat_loop ::
  "'w chat_env \<Rightarrow> 'w callTool \<Rightarrow> 'w onInterimUpdate \<Rightarrow> AnthropicTool list \<Rightarrow> nat
     \<Rightarrow> AnthropicResponse \<Rightarrow> 'w run \<Rightarrow> ('w run \<times> (thrown + AnthropicResponse)) option" where
  "chat_loop env callTool onInterimUpdate tools messages resp st =
     (if r_stop_reason resp = tool_use then
        (case chat_round env callTool onInterimUpdate messages resp st of
           (st1, Some e) \<Rightarrow> Some (st1, Inl e)
         | (st1, None) \<Rightarrow>
             (case sendMessage env messages tools (system_prompt env) st1 of
                (st', Inl e) \<Rightarrow> Some (st', Inl e)
              | (st', Inr resp') \<Rightarrow>
                  chat_loop env callTool onInterimUpdate tools messages resp' st'))
      else Some (st, Inr resp))"

declare chat_loop.simps [code]

text \<open>The totals computed from the log entries after the loop.\<close>

fun sum_tokens :: "LLMLogEntry list \<Rightarrow> int \<times> int \<Rightarrow> int \<times> int" where
  "sum_tokens [] totals = totals"
| "sum_tokens (entry # rest) (totalIn, totalOut) =
     sum_tokens rest
       (if e_type entry = response then
          (case e_data entry of
             ResponseData responseData \<Rightarrow>
               (case r_usage responseData of
                  Some u \<Rightarrow> (totalIn + input_tokens u, totalOut + output_tokens u)
                | None \<Rightarrow> (totalIn, totalOut))
           | RequestData _ \<Rightarrow> (totalIn, totalOut))
        else (totalIn, totalOut))"

definition finish :: "'w chat_env \<Rightarrow> int \<Rightarrow> AnthropicResponse \<Rightarrow> 'w run \<Rightarrow> chat_result" where
  "finish env startTime resp st =
     (let finalResponse = joined_text (r_content resp);
          (totalIn, totalOut) = sum_tokens (logEntries st) (0, 0)
      in \<lparr>res_response = finalResponse,
          res_toolCalls = toolCalls st,
          res_debugLogs =
            \<lparr>entries = logEntries st,
             totalDuration = now env (world st) - startTime,
             totalInputTokens = totalIn,
             totalOutputTokens = totalOut\<rparr>\<rparr>)"

text \<open>
  \<^verbatim>\<open>chat\<close>. The caller's heap of message arrays is \<open>heap\<close> and
  \<open>conversationHistory\<close> an address in it; the spread
  \<^verbatim>\<open>[...conversationHistory, {role: "user", content: userMessage}]\<close> allocates a new
  array at the next free address. The result is \<open>None\<close> when the loop never ends;
  otherwise the final state and the thrown value (\<open>Inl\<close>) or the returned object
  (\<open>Inr\<close>).
\<close>

definition chat ::
  "'w chat_env \<Rightarrow> string \<Rightarrow> nat \<Rightarrow> MCPTool list \<Rightarrow> 'w callTool \<Rightarrow> 'w onInterimUpdate
     \<Rightarrow> AnthropicMessage list list \<Rightarrow> 'w \<Rightarrow> ('w run \<times> (thrown + chat_result)) option" where
  "chat env userMessage conversationHistory mcpTools callTool onInterimUpdate heap w =
     (let tools = mcpToolsToAnthropic mcpTools;
          startTime = now env w;
          messages = length heap;
          st = \<lparr>world = w,
                store = heap @ [heap ! conversationHistory @
                                  [\<lparr>m_role = user, m_content = ContentString userMessage\<rparr>]],
                toolCalls = [], logEntries = [], trace = []\<rparr>
      in case sendMessage env messages tools (system_prompt env) st of
           (st1, Inl e) \<Rightarrow> Some (st1, Inl e)
         | (st1, Inr resp) \<Rightarrow>
             (case chat_loop env callTool onInterimUpdate tools messages resp st1 of
                None \<Rightarrow> None
              | Some (st2, Inl e) \<Rightarrow> Some (st2, Inl e)
              | Some (st2, Inr final) \<Rightarrow> Some (st2, Inr (finish env startTime final st2))))"

subsection \<open>Vocabulary for the properties of a run\<close>

text \<open>The invocations of \<^verbatim>\<open>callTool\<close> in a trace, in order, each with its outcome.\<close>

fun invocations :: "event list \<Rightarrow> (string option \<times> json option \<times> (thrown + json option)) list" where
  "invocations [] = []"
| "invocations (Invoke n i r # es) = (n, i, r) # invocations es"
| "invocations (Update u # es) = invocations es"

text \<open>The \<^verbatim>\<open>thinking\<close> updates in a trace, in order.\<close>

fun thinking_updates :: "event list \<Rightarrow> InterimUpdate list" where
  "thinking_updates [] = []"
| "thinking_updates (Update u # es) =
     (if u_type u = thinking then u # thinking_updates es else thinking_updates es)"
| "thinking_updates (Invoke n i r # es) = thinking_updates es"

text \<open>
  The content that reports a failure: \<^verbatim>\<open>Error: \<close> followed by the message of the
  error, or by \<^verbatim>\<open>Unknown error\<close> when the thrown value is not an \<^verbatim>\<open>Error\<close>.
\<close>

fun failure_content :: "thrown \<Rightarrow> string" where
  "failure_content (Error m) = ''Error: '' @ m"
| "failure_content NonError = ''Error: Unknown error''"

text \<open>
  The \<^verbatim>\<open>tool_result\<close> block that answers a tool-use block whose invocation had the
  given outcome: the serialised result, or the report of the failure of the invocation
  or of the serialisation.
\<close>

definition tool_result_for ::
  "'w chat_env \<Rightarrow> AnthropicContentBlock \<Rightarrow> thrown + json option \<Rightarrow> AnthropicContentBlock" where
  "tool_result_for env toolUse outcome =
     \<lparr>b_type = type_tool_result, b_text = None, b_id = None, b_name = None,
      b_input = None, b_tool_use_id = b_id toolUse,
      b_content =
        (case outcome of
           Inl err \<Rightarrow> Some (failure_content err)
         | Inr result \<Rightarrow>
             (case JSON_stringify env result of
                Inl err \<Rightarrow> Some (failure_content err)
              | Inr content \<Rightarrow> content))\<rparr>"

text \<open>The invocations of \<^verbatim>\<open>callTool\<close> that one round adds to the trace.\<close>

definition round_invocations ::
  "'w chat_env \<Rightarrow> 'w callTool \<Rightarrow> 'w onInterimUpdate \<Rightarrow> nat \<Rightarrow> AnthropicResponse \<Rightarrow> 'w run
     \<Rightarrow> (string option \<times> json option \<times> (thrown + json option)) list" where
  "round_invocations env callTool onInterimUpdate messages resp st =
     invocations (drop (length (trace st))
        (trace (fst (chat_round env callTool onInterimUpdate messages resp st))))"

text \<open>A progress callback that never throws (or none at all).\<close>

definition returns_normally :: "'w onInterimUpdate \<Rightarrow> bool" where
  "returns_normally onInterimUpdate =
     (case onInterimUpdate of None \<Rightarrow> True | Some f \<Rightarrow> (\<forall>u w. snd (f u w) = None))"

text \<open>The tool-result blocks of the last message of an array of messages.\<close>

definition last_results :: "AnthropicMessage list \<Rightarrow> AnthropicContentBlock list" where
  "last_results ms =
     (case m_content (last ms) of ContentBlocks blocks \<Rightarrow> blocks | ContentString t \<Rightarrow> [])"

text \<open>The \<^verbatim>\<open>thinking\<close> update that carries the joined text of a response.\<close>

definition thinking_update :: "AnthropicResponse \<Rightarrow> InterimUpdate" where
  "thinking_update resp =
     \<lparr>u_type = thinking, u_content = Some (joined_text (r_content resp)), u_toolName = None,
      u_toolInput = None, u_toolResult = None, u_error = None\<rparr>"

text \<open>The response entries of a log and the token counts each one records.\<close>

definition response_entries :: "LLMLogEntry list \<Rightarrow> LLMLogEntry list" where
  "response_entries es = filter (\<lambda>entry. e_type entry = response) es"

definition entry_input_tokens :: "LLMLogEntry \<Rightarrow> int" where
  "entry_input_tokens entry =
     (case e_data entry of
        ResponseData r \<Rightarrow> (case r_usage r of Some u \<Rightarrow> input_tokens u | None \<Rightarrow> 0)
      | RequestData _ \<Rightarrow> 0)"

definition entry_output_tokens :: "LLMLogEntry \<Rightarrow> int" where
  "entry_output_tokens entry =
     (case e_data entry of
        ResponseData r \<Rightarrow> (case r_usage r of Some u \<Rightarrow> output_tokens u | None \<Rightarrow> 0)
      | RequestData _ \<Rightarrow> 0)"

text \<open>The first request body of a run, as it goes on the wire.\<close>

definition first_request ::
  "'w chat_env \<Rightarrow> string \<Rightarrow> AnthropicMessage list \<Rightarrow> MCPTool list
     \<Rightarrow> AnthropicMessage list request_body" where
  "first_request env userMessage history mcpTools =
     \<lparr>rb_model = snd (getConfig env), rb_max_tokens = 4096, rb_system = system_prompt env,
      rb_tools = mcpToolsToAnthropic mcpTools,
      rb_messages = history @ [\<lparr>m_role = user, m_content = ContentString userMessage\<rparr>]\<rparr>"

subsection \<open>A scenario: three rounds, one failing tool\<close>

text \<open>
  The world is a clock. The engine asks for two tools in its first answer (the second
  one fails), for one tool in its second answer, and ends the turn in its third; it
  tells the rounds apart by the assistant messages in the request.
  \<open>demo_stringify\<close> agrees with \<^verbatim>\<open>JSON.stringify\<close> on \<^verbatim>\<open>undefined\<close>, \<^verbatim>\<open>null\<close>,
  booleans and integers, the only values the tools of the scenario return.
\<close>

definition demo_stringify :: "json option \<Rightarrow> thrown + string option" where
  "demo_stringify v =
     (case v of
        None \<Rightarrow> Inr None
      | Some JNull \<Rightarrow> Inr (Some ''null'')
      | Some (JBool b) \<Rightarrow> Inr (Some (if b then ''true'' else ''false''))
      | Some (JNumber n) \<Rightarrow>
          Inr (Some (if 0 \<le> n then show_nat (nat n) else ''-'' @ show_nat (nat (- n))))
      | Some _ \<Rightarrow> Inl (Error ''not serialised in this scenario''))"

definition text_block :: "string \<Rightarrow> AnthropicContentBlock" where
  "text_block t =
     \<lparr>b_type = type_text, b_text = Some t, b_id = None, b_name = None, b_input = None,
      b_tool_use_id = None, b_content = None\<rparr>"

definition tool_use_block :: "string \<Rightarrow> string \<Rightarrow> json \<Rightarrow> AnthropicContentBlock" where
  "tool_use_block i n inp =
     \<lparr>b_type = type_tool_use, b_text = None, b_id = Some i, b_name = Some n, b_input = Some inp,
      b_tool_use_id = None, b_content = None\<rparr>"

definition demo_response1 :: AnthropicResponse where
  "demo_response1 =
     \<lparr>r_id = ''msg_1'',
      r_content =
        [text_block ''Let me look.'',
         tool_use_block ''tu_1'' ''queryData'' (JObject [(''query'', JString ''SELECT 1'')]),
         tool_use_block ''tu_2'' ''getSchema'' (JObject [])],
      r_stop_reason = tool_use,
      r_usage = Some \<lparr>input_tokens = 10, output_tokens = 5\<rparr>\<rparr>"

definition demo_response2 :: AnthropicResponse where
  "demo_response2 =
     \<lparr>r_id = ''msg_2'',
      r_content =
        [tool_use_block ''tu_3'' ''queryData'' (JObject [(''query'', JString ''SELECT 2'')])],
      r_stop_reason = tool_use,
      r_usage = Some \<lparr>input_tokens = 20, output_tokens = 7\<rparr>\<rparr>"

definition demo_response3 :: AnthropicResponse where
  "demo_response3 =
     \<lparr>r_id = ''msg_3'',
      r_content = [text_block ''Account 1 has'', text_block ''3 open tickets.''],
      r_stop_reason = end_turn,
      r_usage = Some \<lparr>input_tokens = 30, output_tokens = 9\<rparr>\<rparr>"

definition demo_fetch :: "AnthropicMessage list request_body \<Rightarrow> nat \<Rightarrow> nat \<times> fetch_outcome" where
  "demo_fetch body w =
     (let answered = length (filter (\<lambda>m. m_role m = assistant) (rb_messages body))
      in (w + 2,
          if answered = 0 then Ok_json demo_response1
          else if answered = 1 then Ok_json demo_response2
          else Ok_json demo_response3))"

definition demo_env :: "nat chat_env" where
  "demo_env =
     \<lparr>VITE_ANTHROPIC_API_KEY = Some ''sk-demo'', VITE_ANTHROPIC_MODEL = None,
      system_prompt = ''You are an AI Data Advisor'',
      fetch_engine = demo_fetch, now = int, JSON_stringify = demo_stringify\<rparr>"

definition demo_callTool :: "nat callTool" where
  "demo_callTool name args w =
     (w + 1,
      if name = Some ''queryData'' then Inr (Some (JNumber 3))
      else Inl (Error ''MCP request failed: 500''))"

definition demo_onInterimUpdate :: "nat onInterimUpdate" where
  "demo_onInterimUpdate = Some (\<lambda>u w. (w, None))"

text \<open>A progress callback that throws on the updates of one type.\<close>

definition throwing_onInterimUpdate :: "update_type \<Rightarrow> nat onInterimUpdate" where
  "throwing_onInterimUpdate t =
     Some (\<lambda>u w. (w, if u_type u = t then Some (Error ''render failed'') else None))"

definition demo_state :: "nat run" where
  "demo_state =
     \<lparr>world = 0,
      store = [[\<lparr>m_role = user, m_content = ContentString ''How many open tickets?''\<rparr>]],
      toolCalls = [], logEntries = [], trace = []\<rparr>"

text \<open>
  Responses whose only text is blank, next to a tool request: a space, and a no-break
  space between two line feeds.
\<close>

definition blank_response :: AnthropicResponse where
  "blank_response =
     \<lparr>r_id = ''msg_b'',
      r_content = [text_block '' '', tool_use_block ''tu_1'' ''queryData'' (JObject [])],
      r_stop_reason = tool_use,
      r_usage = Some \<lparr>input_tokens = 1, output_tokens = 1\<rparr>\<rparr>"

definition nbsp_response :: AnthropicResponse where
  "nbsp_response =
     \<lparr>r_id = ''msg_n'',
      r_content = [text_block [CHR 0x0A, CHR 0xA0, CHR 0x0A],
                   tool_use_block ''tu_1'' ''queryData'' (JObject [])],
      r_stop_reason = tool_use,
      r_usage = Some \<lparr>input_tokens = 1, output_tokens = 1\<rparr>\<rparr>"

text \<open>A response with two text blocks next to a tool request.\<close>

definition two_text_response :: AnthropicResponse where
  "two_text_response =
     \<lparr>r_id = ''msg_t'',
      r_content = [text_block ''Checking.'', text_block ''One moment.'',
                   tool_use_block ''tu_1'' ''queryData'' (JObject [])],
      r_stop_reason = tool_use,
      r_usage = Some \<lparr>input_tokens = 1, output_tokens = 1\<rparr>\<rparr>"

text \<open>An engine that ends the turn at once.\<close>

definition direct_env :: "nat chat_env" where
  "direct_env = demo_env\<lparr>fetch_engine := (\<lambda>body w. (w + 2, Ok_json demo_response3))\<rparr>"

section \<open>The tool gateway client (src/lib/cdata.ts)\<close>

subsection \<open>Data\<close>

record MCPRequest =
  rq_jsonrpc :: string
  rq_id :: nat
  rq_method :: string
  rq_params :: "json option"

text \<open>
  What \<^verbatim>\<open>fetch\<close> resolves to, as far as \<^verbatim>\<open>mcpRequest\<close> reads it: \<^verbatim>\<open>response.ok\<close>,
  \<^verbatim>\<open>response.status\<close>, the value of the \<^verbatim>\<open>content-type\<close> header as the server wrote
  it (\<open>None\<close> when absent) and the body, whose reading may reject.
\<close>

record http_response =
  hr_ok :: bool
  hr_status :: nat
  hr_content_type :: "string option"
  hr_body :: "thrown + string"

text \<open>
  The environment: the POST to the gateway; \<^verbatim>\<open>JSON.parse\<close>, which throws (\<open>Inl\<close>)
  or yields a JSON value (the interface \<^verbatim>\<open>MCPResponse\<close> is an annotation of the
  compiler: at run time the variable \<^verbatim>\<open>data\<close> holds whatever value the text
  denotes); and the conversion \<^verbatim>\<open>String(v)\<close> that \<^verbatim>\<open>new Error(v)\<close> applies to a
  message that is neither \<^verbatim>\<open>undefined\<close> nor a string.
\<close>

record 'w mcp_env =
  mcp_fetch :: "string \<Rightarrow> MCPRequest \<Rightarrow> 'w \<Rightarrow> 'w \<times> (thrown + http_response)"
  JSON_parse :: "string \<Rightarrow> thrown + json"
  String_of :: "json \<Rightarrow> string"

text \<open>
  The module state: the counter \<^verbatim>\<open>requestId\<close>, next to the world and to the list of
  the requests handed to \<^verbatim>\<open>fetch\<close> so far, in order.
\<close>

record 'w mcp_state =
  requestId :: nat
  mcp_world :: 'w
  sent :: "MCPRequest list"

definition mcp_init :: "'w \<Rightarrow> 'w mcp_state" where
  "mcp_init w = \<lparr>requestId = 0, mcp_world = w, sent = []\<rparr>"

subsection \<open>mcpRequest\<close>

text \<open>
  \<^verbatim>\<open>++requestId\<close> on a JavaScript number. The counter starts at 0 and is only ever
  incremented, so it holds a natural number of at most \<open>2^53\<close>. Below \<open>2^53\<close> the
  increment is exact; at \<open>2^53\<close> the sum \<open>2^53 + 1\<close> is not a double and rounds back
  to \<open>2^53\<close> (round to nearest, ties to even). The bound is compared as an integer, so
  that the test evaluates in binary arithmetic.
\<close>

definition js_increment :: "nat \<Rightarrow> nat" where
  "js_increment n = (if int n < 2 ^ 53 then n + 1 else n)"

text \<open>The message of \<^verbatim>\<open>new Error(m)\<close>, for \<^verbatim>\<open>m\<close> read from a property.\<close>

definition error_message :: "(json \<Rightarrow> string) \<Rightarrow> json option \<Rightarrow> string" where
  "error_message to_string m =
     (case m of
        None \<Rightarrow> []
      | Some (JString t) \<Rightarrow> t
      | Some v \<Rightarrow> to_string v)"

text \<open>
  The two lines \<^verbatim>\<open>if (data.error) throw new Error(data.error.message); return
  data.result\<close>, for \<^verbatim>\<open>data\<close> other than \<^verbatim>\<open>null\<close>.
\<close>

definition respond :: "'w mcp_env \<Rightarrow> json \<Rightarrow> thrown + json option" where
  "respond env d =
     (case get_prop d ''error'' of
        None \<Rightarrow> Inr (get_prop d ''result'')
      | Some e \<Rightarrow>
          if truthy e then Inl (Error (error_message (String_of env) (get_prop e ''message'')))
          else Inr (get_prop d ''result''))"

text \<open>
  The \<^verbatim>\<open>for\<close> loop over the lines of an event stream, with its variable \<^verbatim>\<open>data\<close>,
  which starts as \<^verbatim>\<open>null\<close>.
\<close>

fun sse_scan :: "(string \<Rightarrow> thrown + json) \<Rightarrow> string list \<Rightarrow> json \<Rightarrow> json" where
  "sse_scan parse [] d = d"
| "sse_scan parse (line # lines) d =
     sse_scan parse lines
       (if startsWith line ''data: '' then
          (let jsonStr = drop 6 line in
           if trim jsonStr \<noteq> [] then
             (case parse jsonStr of Inr v \<Rightarrow> v | Inl e \<Rightarrow> d)
           else d)
        else d)"

definition sse_result :: "'w mcp_env \<Rightarrow> string \<Rightarrow> thrown + json option" where
  "sse_result env body =
     (let d = sse_scan (JSON_parse env) (split_on (CHR 0x0A) body) JNull in
      if \<not> truthy d then Inl (Error ''No valid JSON data in SSE response'')
      else respond env d)"

text \<open>
  The plain path: \<^verbatim>\<open>response.json()\<close> parses the body. On \<^verbatim>\<open>null\<close> the read of
  \<^verbatim>\<open>data.error\<close> throws a \<^verbatim>\<open>TypeError\<close>, whose message is the engine's.
\<close>

definition null_read_message :: string where
  "null_read_message =
     ''Cannot read properties of null (reading '' @ [CHR 0x27] @ ''error'' @ [CHR 0x27] @ '')''"

definition plain_result :: "'w mcp_env \<Rightarrow> string \<Rightarrow> thrown + json option" where
  "plain_result env body =
     (case JSON_parse env body of
        Inl e \<Rightarrow> Inl e
      | Inr d \<Rightarrow> if d = JNull then Inl (Error null_read_message) else respond env d)"

definition mcpRequest ::
  "'w mcp_env \<Rightarrow> string \<Rightarrow> string \<Rightarrow> json option \<Rightarrow> 'w mcp_state
     \<Rightarrow> 'w mcp_state \<times> (thrown + json option)" where
  "mcpRequest env token method params st =
     (let req = \<lparr>rq_jsonrpc = ''2.0'', rq_id = js_increment (requestId st),
                 rq_method = method, rq_params = params\<rparr>;
          (w, fetched) = mcp_fetch env token req (mcp_world st);
          st1 = \<lparr>requestId = js_increment (requestId st), mcp_world = w, sent = sent st @ [req]\<rparr>
      in case fetched of
           Inl e \<Rightarrow> (st1, Inl e)
         | Inr resp \<Rightarrow>
             if \<not> hr_ok resp then
               (st1, Inl (Error (''MCP request failed: '' @ show_nat (hr_status resp))))
             else
               (let contentType = (case hr_content_type resp of None \<Rightarrow> [] | Some c \<Rightarrow> c) in
                if includes_str contentType ''text/event-stream'' then
                  (case hr_body resp of
                     Inl e \<Rightarrow> (st1, Inl e)
                   | Inr body \<Rightarrow> (st1, sse_result env body))
                else
                  (case hr_body resp of
                     Inl e \<Rightarrow> (st1, Inl e)
                   | Inr body \<Rightarrow> (st1, plain_result env body))))"

text \<open>
  A session: calls of \<^verbatim>\<open>mcpRequest\<close> (token, method, params) in the order they are
  made. The id is taken and the request handed to \<^verbatim>\<open>fetch\<close> before the first
  \<^verbatim>\<open>await\<close>, so the order of the requests sent is the order of the calls, however
  the responses interleave.
\<close>

fun mcp_session ::
  "'w mcp_env \<Rightarrow> (string \<times> string \<times> json option) list \<Rightarrow> 'w mcp_state \<Rightarrow> 'w mcp_state" where
  "mcp_session env [] st = st"
| "mcp_session env ((token, method, params) # calls) st =
     mcp_session env calls (fst (mcpRequest env token method params st))"

subsection \<open>Vocabulary for the event-stream property\<close>

text \<open>
  The payloads of the lines of a body that start with \<^verbatim>\<open>data: \<close> and parse as JSON,
  in order.
\<close>

definition data_payloads :: "(string \<Rightarrow> thrown + json) \<Rightarrow> string \<Rightarrow> json list" where
  "data_payloads parse body =
     List.map_filter
       (\<lambda>line. if startsWith line ''data: '' then
                 (case parse (drop 6 line) of Inr v \<Rightarrow> Some v | Inl e \<Rightarrow> None)
               else None)
       (split_on (CHR 0x0A) body)"

subsection \<open>A scenario: a gateway that answers with an event stream\<close>

definition quoted :: "string \<Rightarrow> string" where
  "quoted t = [CHR 0x22] @ t @ [CHR 0x22]"

definition payload_result :: string where
  "payload_result =
     ''{'' @ quoted ''jsonrpc'' @ '':'' @ quoted ''2.0'' @ '','' @ quoted ''id'' @ '':1,''
       @ quoted ''result'' @ '':7}''"

definition payload_error :: string where
  "payload_error =
     ''{'' @ quoted ''jsonrpc'' @ '':'' @ quoted ''2.0'' @ '','' @ quoted ''id'' @ '':1,''
       @ quoted ''error'' @ '':{'' @ quoted ''code'' @ '':-32000,'' @ quoted ''message'' @ '':''
       @ quoted ''boom'' @ ''}}''"

text \<open>
  \<open>demo_parse\<close> stands for \<^verbatim>\<open>JSON.parse\<close> in the scenarios: it gives what
  \<^verbatim>\<open>JSON.parse\<close> gives on the four texts below and, like it, rejects the other
  texts that the scenarios hand to it (a truncated object, and a whole event stream).
\<close>

definition demo_parse :: "string \<Rightarrow> thrown + json" where
  "demo_parse t =
     (if t = payload_result then
        Inr (JObject [(''jsonrpc'', JString ''2.0''), (''id'', JNumber 1), (''result'', JNumber 7)])
      else if t = payload_error then
        Inr (JObject [(''jsonrpc'', JString ''2.0''), (''id'', JNumber 1),
                      (''error'', JObject [(''code'', JNumber (- 32000)),
                                           (''message'', JString ''boom'')])])
      else if t = ''null'' then Inr JNull
      else if t = ''0'' then Inr (JNumber 0)
      else Inl (Error ''Unexpected token''))"

definition sse_response :: "string \<Rightarrow> http_response" where
  "sse_response body =
     \<lparr>hr_ok = True, hr_status = 200, hr_content_type = Some ''text/event-stream; charset=utf-8'',
      hr_body = Inr body\<rparr>"

definition json_response :: "string \<Rightarrow> http_response" where
  "json_response body =
     \<lparr>hr_ok = True, hr_status = 200, hr_content_type = Some ''application/json'',
      hr_body = Inr body\<rparr>"

text \<open>An event stream whose media type the server writes with capitals.\<close>

definition capitals_response :: "string \<Rightarrow> http_response" where
  "capitals_response body =
     \<lparr>hr_ok = True, hr_status = 200, hr_content_type = Some ''Text/Event-Stream'',
      hr_body = Inr body\<rparr>"

text \<open>
  The gateway of the scenario answers every request with the response it is given. No
  error message of the scenario needs the conversion to a string; \<open>String_of\<close> gives
  what JavaScript gives for an object.
\<close>

definition demo_mcp_env :: "http_response \<Rightarrow> nat mcp_env" where
  "demo_mcp_env resp =
     \<lparr>mcp_fetch = (\<lambda>token req w. (w + 1, Inr resp)), JSON_parse = demo_parse,
      String_of = (\<lambda>v. ''[object Object]'')\<rparr>"

definition stream_body :: string where
  "stream_body =
     ''event: message'' @ [CHR 0x0A] @ ''data: '' @ payload_error @ [CHR 0x0A]
       @ ''data: {broken'' @ [CHR 0x0A] @ ''data: '' @ payload_result @ [CHR 0x0A]
       @ ''data:    '' @ [CHR 0x0A]"

definition error_stream_body :: string where
  "error_stream_body =
     ''data: '' @ payload_result @ [CHR 0x0A] @ ''data: '' @ payload_error @ [CHR 0x0A]"

definition zero_stream_body :: string where
  "zero_stream_body = ''data: '' @ payload_result @ [CHR 0x0A] @ ''data: 0'' @ [CHR 0x0A]"

definition short_stream_body :: string where
  "short_stream_body = ''data: '' @ payload_result @ [CHR 0x0A]"

text \<open>A session of \<open>n\<close> identical calls.\<close>

definition same_calls :: "nat \<Rightarrow> (string \<times> string \<times> json option) list" where
  "same_calls n = replicate n (''jwt'', ''tools/list'', None)"

section \<open>The credential manager (CDataContext.tsx)\<close>

subsection \<open>State and environment\<close>

text \<open>
  The calls the credential manager makes to the outside, in order: an acquisition
  (\<^verbatim>\<open>generateJWT\<close>) with its outcome, and a call of the wrapped API function with the
  token it was given.
\<close>

datatype cm_event =
    Acquire "thrown + string"
  | ApiCall string

text \<open>
  The three refs of the provider, its React state (\<^verbatim>\<open>token\<close>, \<^verbatim>\<open>tools\<close>,
  \<^verbatim>\<open>error\<close>), the world and the trace of outside calls.
\<close>

record 'w cm_state =
  tokenRef :: "string option"
  tokenExpiryRef :: int
  isRefreshingRef :: bool
  token_state :: "string option"
  tools_state :: "MCPTool list"
  error_state :: "string option"
  cm_world :: 'w
  cm_trace :: "cm_event list"

text \<open>
  The environment: \<^verbatim>\<open>hasCredentials()\<close>, the acquisition \<^verbatim>\<open>generateJWT\<close>, the tool
  listing \<^verbatim>\<open>listMCPTools\<close>, \<^verbatim>\<open>Date.now()\<close>, and the passing of the 500 ms that
  \<^verbatim>\<open>doRefreshToken\<close> waits when a refresh is in flight. The model follows one task:
  what other tasks do to the refs while this one awaits is not part of it.
\<close>

record 'w cm_env =
  isConfigured :: bool
  generateJWT :: "'w \<Rightarrow> 'w \<times> (thrown + string)"
  listMCPTools :: "string \<Rightarrow> 'w \<Rightarrow> 'w \<times> (thrown + MCPTool list)"
  Date_now :: "'w \<Rightarrow> int"
  wait_500ms :: "'w \<Rightarrow> 'w"

text \<open>
  The cached credential: what \<^verbatim>\<open>tokenRef.current\<close> holds when the test
  \<^verbatim>\<open>tokenRef.current &&\<close> accepts it, that is, a non-empty string.
\<close>

definition current_token :: "'w cm_state \<Rightarrow> string option" where
  "current_token st =
     (case tokenRef st of None \<Rightarrow> None | Some t \<Rightarrow> if t = [] then None else Some t)"

subsection \<open>doRefreshToken\<close>

text \<open>The \<^verbatim>\<open>catch\<close> block followed by the \<^verbatim>\<open>finally\<close> block.\<close>

definition refresh_failed :: "thrown \<Rightarrow> 'w cm_state \<Rightarrow> 'w cm_state" where
  "refresh_failed err st =
     st\<lparr>error_state := Some (case err of Error m \<Rightarrow> m | NonError \<Rightarrow> ''Failed to initialize''),
        token_state := None, tokenRef := None, tools_state := [], isRefreshingRef := False\<rparr>"

text \<open>The \<^verbatim>\<open>try\<close> block, entered with \<^verbatim>\<open>isRefreshingRef.current = true\<close>.\<close>

definition acquire :: "'w cm_env \<Rightarrow> 'w cm_state \<Rightarrow> 'w cm_state \<times> (thrown + string)" where
  "acquire env st =
     (let (w, jwt) = generateJWT env (cm_world st);
          st1 = st\<lparr>cm_world := w, cm_trace := cm_trace st @ [Acquire jwt]\<rparr>
      in case jwt of
           Inl err \<Rightarrow> (refresh_failed err st1, Inl err)
         | Inr newToken \<Rightarrow>
             (let st2 = st1\<lparr>token_state := Some newToken, tokenRef := Some newToken,
                            tokenExpiryRef := Date_now env w + 2 * 60 * 60 * 1000 - 5 * 60 * 1000\<rparr>;
                  (w', listed) = listMCPTools env newToken w;
                  st3 = st2\<lparr>cm_world := w'\<rparr>
              in case listed of
                   Inl err \<Rightarrow> (refresh_failed err st3, Inl err)
                 | Inr availableTools \<Rightarrow>
                     (st3\<lparr>tools_state := availableTools, error_state := None,
                          isRefreshingRef := False\<rparr>,
                      Inr newToken)))"

definition doRefreshToken :: "'w cm_env \<Rightarrow> 'w cm_state \<Rightarrow> 'w cm_state \<times> (thrown + string)" where
  "doRefreshToken env st =
     (if \<not> isConfigured env then (st, Inl (Error ''CData credentials not configured''))
      else if isRefreshingRef st then
        (let st1 = st\<lparr>cm_world := wait_500ms env (cm_world st)\<rparr> in
         case current_token st1 of
           Some t \<Rightarrow> (st1, Inr t)
         | None \<Rightarrow> acquire env (st1\<lparr>isRefreshingRef := True\<rparr>))
      else acquire env (st\<lparr>isRefreshingRef := True\<rparr>))"

subsection \<open>getValidToken and withAutoRefresh\<close>

definition isTokenExpired :: "'w cm_env \<Rightarrow> 'w cm_state \<Rightarrow> bool" where
  "isTokenExpired env st =
     (current_token st = None \<or> Date_now env (cm_world st) \<ge> tokenExpiryRef st)"

definition getValidToken :: "'w cm_env \<Rightarrow> 'w cm_state \<Rightarrow> 'w cm_state \<times> (thrown + string)" where
  "getValidToken env st =
     (case current_token st of
        Some t \<Rightarrow> if \<not> isTokenExpired env st then (st, Inr t) else doRefreshToken env st
      | None \<Rightarrow> doRefreshToken env st)"

definition isAuthError :: "thrown \<Rightarrow> bool" where
  "isAuthError err =
     (case err of
        Error m \<Rightarrow>
          includes_str m ''401''
          \<or> includes_str (toLowerCase m) ''unauthorized''
          \<or> includes_str (toLowerCase m) ''authentication''
          \<or> includes_str (toLowerCase m) ''token''
      | NonError \<Rightarrow> False)"

text \<open>One call of the wrapped API function: it acts on the world and is traced.\<close>

definition call_api ::
  "(string \<Rightarrow> 'w \<Rightarrow> 'w \<times> (thrown + 'a)) \<Rightarrow> string \<Rightarrow> 'w cm_state
     \<Rightarrow> 'w cm_state \<times> (thrown + 'a)" where
  "call_api apiCall t st =
     (let (w, r) = apiCall t (cm_world st)
      in (st\<lparr>cm_world := w, cm_trace := cm_trace st @ [ApiCall t]\<rparr>, r))"

definition withAutoRefresh ::
  "'w cm_env \<Rightarrow> (string \<Rightarrow> 'w \<Rightarrow> 'w \<times> (thrown + 'a)) \<Rightarrow> 'w cm_state
     \<Rightarrow> 'w cm_state \<times> (thrown + 'a)" where
  "withAutoRefresh env apiCall st =
     (case getValidToken env st of
        (st1, Inl e) \<Rightarrow> (st1, Inl e)
      | (st1, Inr currentToken) \<Rightarrow>
          (case call_api apiCall currentToken st1 of
             (st2, Inr v) \<Rightarrow> (st2, Inr v)
           | (st2, Inl err) \<Rightarrow>
               if isAuthError err then
                 (case doRefreshToken env st2 of
                    (st3, Inl e) \<Rightarrow> (st3, Inl e)
                  | (st3, Inr newToken) \<Rightarrow> call_api apiCall newToken st3)
               else (st2, Inl err)))"

subsection \<open>Vocabulary for the properties of the credential manager\<close>

text \<open>The acquisitions in a trace, and the tokens of the API calls in a trace.\<close>

fun acquisitions :: "cm_event list \<Rightarrow> (thrown + string) list" where
  "acquisitions [] = []"
| "acquisitions (Acquire r # es) = r # acquisitions es"
| "acquisitions (ApiCall t # es) = acquisitions es"

fun api_calls :: "cm_event list \<Rightarrow> string list" where
  "api_calls [] = []"
| "api_calls (ApiCall t # es) = t # api_calls es"
| "api_calls (Acquire r # es) = api_calls es"

text \<open>The events that lead from the trace of one state to the trace of a later one.\<close>

definition events_since :: "'w cm_state \<Rightarrow> 'w cm_state \<Rightarrow> cm_event list" where
  "events_since st st' = drop (length (cm_trace st)) (cm_trace st')"

subsection \<open>A scenario: a cached token that the service no longer accepts\<close>

text \<open>
  The world is a pair: the clock, and the number of tokens issued so far. The service
  accepts every token but the first one, \<^verbatim>\<open>jwt-1\<close>.
\<close>

definition demo_cm_env :: "(int \<times> nat) cm_env" where
  "demo_cm_env =
     \<lparr>isConfigured = True,
      generateJWT = (\<lambda>(t, n). ((t + 10, Suc n), Inr (''jwt-'' @ show_nat (Suc n)))),
      listMCPTools = (\<lambda>token (t, n). ((t + 10, n), Inr [])),
      Date_now = fst,
      wait_500ms = (\<lambda>(t, n). (t + 500, n))\<rparr>"

text \<open>The same, with an issuer that is down.\<close>

definition broken_cm_env :: "(int \<times> nat) cm_env" where
  "broken_cm_env =
     demo_cm_env\<lparr>generateJWT := (\<lambda>(t, n). ((t + 10, n), Inl (Error ''Failed to generate JWT from server'')))\<rparr>"

definition demo_apiCall :: "string \<Rightarrow> int \<times> nat \<Rightarrow> (int \<times> nat) \<times> (thrown + string)" where
  "demo_apiCall token w =
     ((fst w + 1, snd w),
      if token = ''jwt-1'' then Inl (Error ''API query failed: 401 - Unauthorized'')
      else Inr ''rows'')"

text \<open>An API function that fails for a reason other than authentication.\<close>

definition failing_apiCall :: "string \<Rightarrow> int \<times> nat \<Rightarrow> (int \<times> nat) \<times> (thrown + string)" where
  "failing_apiCall token w = ((fst w + 1, snd w), Inl (Error ''API query failed: 500 - Server Error''))"

definition cached_state :: "(int \<times> nat) cm_state" where
  "cached_state =
     \<lparr>tokenRef = Some ''jwt-1'', tokenExpiryRef = 6900000, isRefreshingRef = False,
      token_state = Some ''jwt-1'', tools_state = [], error_state = None,
      cm_world = (1000, 1), cm_trace = []\<rparr>"

section \<open>Properties of the agentic loop\<close>

subsection \<open>The tool loop and the round\<close>

lemma invocations_append: "invocations (xs @ ys) = invocations xs @ invocations ys"
  by (induction xs rule: invocations.induct) auto

lemma thinking_updates_append:
  "thinking_updates (xs @ ys) = thinking_updates xs @ thinking_updates ys"
  by (induction xs rule: thinking_updates.induct) auto

lemma failure_content_errorMsg: "failure_content err = ''Error: '' @ errorMsg_of err"
  by (cases err) (simp_all add: errorMsg_of_def)

lemma notify_char:
  assumes "notify cb u st = (st', t)"
  shows "trace st' = trace st @ (if cb = None then [] else [Update u])
       \<and> store st' = store st \<and> logEntries st' = logEntries st"
  using assms unfolding notify_def
  by (cases cb) (auto simp: Let_def split: prod.splits)

lemma notify_normal:
  assumes "returns_normally cb"
  shows "snd (notify cb u st) = None"
proof (cases cb)
  case None
  then show ?thesis by (simp add: notify_def)
next
  case (Some f)
  with assms have "snd (f u (world st)) = None"
    by (simp add: returns_normally_def)
  with Some show ?thesis
    by (cases "f u (world st)") (simp add: notify_def Let_def)
qed

lemma tool_failed_char:
  assumes "tool_failed cb b err st rs = (st', out)"
  shows "trace st' = trace st @ drop (length (trace st)) (trace st')
       \<and> invocations (drop (length (trace st)) (trace st')) = []
       \<and> thinking_updates (drop (length (trace st)) (trace st')) = []
       \<and> store st' = store st \<and> logEntries st' = logEntries st
       \<and> (returns_normally cb \<longrightarrow> out = Inr (rs @ [tool_result_for env b (Inl err)]))"
proof -
  let ?u = "\<lparr>u_type = tool_error, u_content = None, u_toolName = b_name b,
                 u_toolInput = None, u_toolResult = None, u_error = Some (errorMsg_of err)\<rparr>"
  obtain st1 t where n: "notify cb ?u st = (st1, t)"
    by force
  have t: "t = None" if "returns_normally cb"
    using notify_normal[OF that, of ?u st] n by simp
  from notify_char[OF n] n assms t show ?thesis
    unfolding tool_failed_def tool_result_for_def
    by (cases t) (auto simp: Let_def failure_content_errorMsg)
qed

lemma execute_tool_char:
  assumes "execute_tool env callTool cb b st rs = (st', out)"
  shows "\<exists>new. trace st' = trace st @ new \<and> thinking_updates new = []
       \<and> store st' = store st \<and> logEntries st' = logEntries st
       \<and> (\<forall>rs'. out = Inr rs' \<longrightarrow>
             (\<exists>outcome. invocations new = [(b_name b, b_input b, outcome)]))
       \<and> (returns_normally cb \<longrightarrow>
             (\<exists>outcome. invocations new = [(b_name b, b_input b, outcome)]
                \<and> out = Inr (rs @ [tool_result_for env b outcome])))"
proof -
  let ?start = "\<lparr>u_type = tool_start, u_content = None, u_toolName = b_name b,
              u_toolInput = b_input b, u_toolResult = None, u_error = None\<rparr>"
  obtain st1 t1 where n1: "notify cb ?start st = (st1, t1)"
    by force
  note c1 = notify_char[OF n1]
  have t1: "t1 = None" if "returns_normally cb"
    using notify_normal[OF that, of ?start st] n1 by simp
  show ?thesis
  proof (cases t1)
    case (Some e)
    with assms n1 have "st' = st1" "out = Inl e"
      by (simp_all add: execute_tool_def)
    with c1 t1 Some show ?thesis
      by (intro exI[of _ "if cb = None then [] else [Update ?start]"]) auto
  next
    case None
    obtain w outcome where call: "callTool (b_name b) (b_input b) (world st1) = (w, outcome)"
      by force
    let ?st2 = "st1\<lparr>world := w,
                   trace := trace st1 @ [Invoke (b_name b) (b_input b) outcome]\<rparr>"
    let ?pre = "(if cb = None then [] else [Update ?start]) @ [Invoke (b_name b) (b_input b) outcome]"
    have pre: "trace ?st2 = trace st @ ?pre" "store ?st2 = store st" "logEntries ?st2 = logEntries st"
      using c1 by simp_all
    have pre_inv: "invocations ?pre = [(b_name b, b_input b, outcome)]" "thinking_updates ?pre = []"
      by simp_all
    have failed: ?thesis
      if f: "tool_failed cb b err st3 rs3 = (st', out)"
        and st3: "trace st3 = trace ?st2" "store st3 = store ?st2" "logEntries st3 = logEntries ?st2"
        and res: "returns_normally cb \<Longrightarrow> rs3 @ [tool_result_for env b (Inl err)]
                     = rs @ [tool_result_for env b outcome]"
      for err st3 rs3
    proof -
      let ?new = "?pre @ drop (length (trace st3)) (trace st')"
      from tool_failed_char[OF f, of env]
      have h: "trace st' = trace st3 @ drop (length (trace st3)) (trace st')"
        "invocations (drop (length (trace st3)) (trace st')) = []"
        "thinking_updates (drop (length (trace st3)) (trace st')) = []"
        "store st' = store st3" "logEntries st' = logEntries st3"
        "returns_normally cb \<longrightarrow> out = Inr (rs3 @ [tool_result_for env b (Inl err)])"
        by simp_all
      have a: "trace st' = trace st @ ?new"
        using h(1) st3(1) pre(1) by simp
      have b: "thinking_updates ?new = []"
        using h(3) by (simp add: thinking_updates_append)
      have c: "invocations ?new = [(b_name b, b_input b, outcome)]"
        using h(2) by (simp add: invocations_append)
      have d: "store st' = store st" "logEntries st' = logEntries st"
        using h(4,5) st3 pre by simp_all
      have e: "returns_normally cb \<longrightarrow> out = Inr (rs @ [tool_result_for env b outcome])"
        using h(6) res by auto
      from a b c d e show ?thesis
        by (intro exI[of _ ?new]) blast
    qed
    show ?thesis
    proof (cases outcome)
      case (Inl err)
      with assms n1 None call have "tool_failed cb b err ?st2 rs = (st', out)"
        by (simp add: execute_tool_def Let_def)
      from failed[OF this] Inl show ?thesis by simp
    next
      case (Inr result)
      let ?st3 = "?st2\<lparr>toolCalls := toolCalls ?st2 @ [(b_name b, result)]\<rparr>"
      show ?thesis
      proof (cases "JSON_stringify env result")
        case (Inl err)
        with assms n1 None call Inr have "tool_failed cb b err ?st3 rs = (st', out)"
          by (simp add: execute_tool_def Let_def)
        from failed[OF this] Inr Inl show ?thesis
          by (simp add: tool_result_for_def)
      next
        case content: (Inr content)
        let ?done = "\<lparr>u_type = tool_complete, u_content = None,
                        u_toolName = b_name b, u_toolInput = None,
                        u_toolResult = result, u_error = None\<rparr>"
        let ?pushed = "rs @ [\<lparr>b_type = type_tool_result, b_text = None, b_id = None,
                                   b_name = None, b_input = None, b_tool_use_id = b_id b,
                                   b_content = content\<rparr>]"
        obtain st4 t4 where n4: "notify cb ?done ?st3 = (st4, t4)"
          by force
        note c4 = notify_char[OF n4]
        have t4: "t4 = None" if "returns_normally cb"
          using notify_normal[OF that, of ?done ?st3] n4 by simp
        let ?new = "?pre @ (if cb = None then [] else [Update ?done])"
        have tr4: "trace st4 = trace st @ ?new" "store st4 = store st" "logEntries st4 = logEntries st"
          using c4 pre by simp_all
        have new: "invocations ?new = [(b_name b, b_input b, outcome)]" "thinking_updates ?new = []"
          by simp_all
        show ?thesis
        proof (cases t4)
          case None': None
          with assms n1 None call Inr content n4 have "st' = st4" "out = Inr ?pushed"
            by (simp_all add: execute_tool_def Let_def)
          moreover have "?pushed = rs @ [tool_result_for env b outcome]"
            using Inr content by (simp add: tool_result_for_def)
          ultimately show ?thesis
            using tr4 new by (intro exI[of _ ?new]) auto
        next
          case (Some err)
          with assms n1 None call Inr content n4
          have f: "tool_failed cb b err st4 ?pushed = (st', out)"
            by (simp add: execute_tool_def Let_def)
          let ?all = "?new @ drop (length (trace st4)) (trace st')"
          from tool_failed_char[OF f, of env]
          have h: "trace st' = trace st4 @ drop (length (trace st4)) (trace st')"
            "invocations (drop (length (trace st4)) (trace st')) = []"
            "thinking_updates (drop (length (trace st4)) (trace st')) = []"
            "store st' = store st4" "logEntries st' = logEntries st4"
            by simp_all
          have a: "trace st' = trace st @ ?all"
            using h(1) tr4(1) by simp
          have b: "thinking_updates ?all = []"
            using h(3) by (simp add: thinking_updates_append)
          have c: "invocations ?all = [(b_name b, b_input b, outcome)]"
            using h(2) by (simp add: invocations_append)
          have d: "store st' = store st" "logEntries st' = logEntries st"
            using h(4,5) tr4 by simp_all
          have e: "\<not> returns_normally cb"
            using t4 Some by auto
          from a b c d e show ?thesis
            by (intro exI[of _ ?all]) blast
        qed
      qed
    qed
  qed
qed

lemma execute_tools_char:
  assumes "execute_tools env callTool cb bs st rs = (st', out)"
  shows "\<exists>new. trace st' = trace st @ new \<and> thinking_updates new = []
       \<and> store st' = store st \<and> logEntries st' = logEntries st
       \<and> (\<forall>rs'. out = Inr rs' \<longrightarrow>
             map (\<lambda>(n, i, r). (n, i)) (invocations new) = map (\<lambda>b. (b_name b, b_input b)) bs)
       \<and> (returns_normally cb \<longrightarrow>
             map (\<lambda>(n, i, r). (n, i)) (invocations new) = map (\<lambda>b. (b_name b, b_input b)) bs
             \<and> out = Inr (rs @ map2 (tool_result_for env) bs
                                  (map (\<lambda>(n, i, r). r) (invocations new))))"
  using assms
proof (induction bs arbitrary: st rs)
  case Nil
  then show ?case by simp
next
  case (Cons b bs)
  obtain st1 out1 where s1: "execute_tool env callTool cb b st rs = (st1, out1)"
    by force
  from execute_tool_char[OF s1] obtain new1 where
    h1: "trace st1 = trace st @ new1" "thinking_updates new1 = []"
        "store st1 = store st" "logEntries st1 = logEntries st"
        "\<forall>rs'. out1 = Inr rs' \<longrightarrow>
             (\<exists>outcome. invocations new1 = [(b_name b, b_input b, outcome)])"
        "returns_normally cb \<longrightarrow>
             (\<exists>outcome. invocations new1 = [(b_name b, b_input b, outcome)]
                \<and> out1 = Inr (rs @ [tool_result_for env b outcome]))"
    by blast
  show ?case
  proof (cases out1)
    case (Inl e)
    with Cons.prems s1 have "st' = st1" "out = Inl e"
      by simp_all
    with h1 Inl show ?thesis
      by (intro exI[of _ new1]) auto
  next
    case (Inr rs1)
    with Cons.prems s1 have rest: "execute_tools env callTool cb bs st1 rs1 = (st', out)"
      by simp
    from h1(5) Inr obtain outcome where o: "invocations new1 = [(b_name b, b_input b, outcome)]"
      by blast
    have rs1: "rs1 = rs @ [tool_result_for env b outcome]" if "returns_normally cb"
      using h1(6) that o Inr by auto
    from Cons.IH[OF rest] obtain new2 where
      h2: "trace st' = trace st1 @ new2" "thinking_updates new2 = []"
          "store st' = store st1" "logEntries st' = logEntries st1"
          "\<forall>rs'. out = Inr rs' \<longrightarrow>
             map (\<lambda>(n, i, r). (n, i)) (invocations new2) = map (\<lambda>b. (b_name b, b_input b)) bs"
          "returns_normally cb \<longrightarrow>
             map (\<lambda>(n, i, r). (n, i)) (invocations new2) = map (\<lambda>b. (b_name b, b_input b)) bs
             \<and> out = Inr (rs1 @ map2 (tool_result_for env) bs
                                  (map (\<lambda>(n, i, r). r) (invocations new2)))"
      by blast
    have a: "trace st' = trace st @ (new1 @ new2)"
      using h1(1) h2(1) by simp
    have b: "thinking_updates (new1 @ new2) = []"
      using h1(2) h2(2) by (simp add: thinking_updates_append)
    have c: "store st' = store st" "logEntries st' = logEntries st"
      using h1(3,4) h2(3,4) by simp_all
    have d: "\<forall>rs'. out = Inr rs' \<longrightarrow>
             map (\<lambda>(n, i, r). (n, i)) (invocations (new1 @ new2))
               = map (\<lambda>b. (b_name b, b_input b)) (b # bs)"
      using h2(5) o by (simp add: invocations_append)
    have e: "returns_normally cb \<longrightarrow>
             map (\<lambda>(n, i, r). (n, i)) (invocations (new1 @ new2))
               = map (\<lambda>b. (b_name b, b_input b)) (b # bs)
             \<and> out = Inr (rs @ map2 (tool_result_for env) (b # bs)
                                  (map (\<lambda>(n, i, r). r) (invocations (new1 @ new2))))"
      using h2(6) o rs1 by (simp add: invocations_append)
    from a b c d e show ?thesis
      by (intro exI[of _ "new1 @ new2"]) blast
  qed
qed

lemma emit_thinking_char:
  "trace (fst (emit_thinking cb resp st)) = trace st @
     (if cb \<noteq> None \<and> filter (\<lambda>block. b_type block = type_text) (r_content resp) \<noteq> []
          \<and> trim (joined_text (r_content resp)) \<noteq> []
      then [Update (thinking_update resp)] else [])
   \<and> store (fst (emit_thinking cb resp st)) = store st
   \<and> logEntries (fst (emit_thinking cb resp st)) = logEntries st"
  unfolding emit_thinking_def notify_def joined_text_def thinking_update_def
  by (cases cb) (auto simp: Let_def split: prod.splits)

lemma emit_thinking_normal:
  assumes "returns_normally cb"
  shows "snd (emit_thinking cb resp st) = None"
  using notify_normal[OF assms] unfolding emit_thinking_def
  by (simp add: Let_def)

lemma chat_round_char:
  "\<exists>new. trace (fst (chat_round env callTool cb messages resp st))
              = trace (fst (emit_thinking cb resp st)) @ new
     \<and> thinking_updates new = []
     \<and> logEntries (fst (chat_round env callTool cb messages resp st)) = logEntries st
     \<and> length (store (fst (chat_round env callTool cb messages resp st))) = length (store st)
     \<and> take messages (store (fst (chat_round env callTool cb messages resp st)))
          = take messages (store st)
     \<and> (messages < length (store st) \<longrightarrow>
          (\<exists>pushed. store (fst (chat_round env callTool cb messages resp st)) ! messages
                      = store st ! messages @ pushed))
     \<and> (snd (chat_round env callTool cb messages resp st) = None \<longrightarrow>
          map (\<lambda>(n, i, r). (n, i)) (invocations new)
            = map (\<lambda>b. (b_name b, b_input b)) (toolUseBlocks_of resp))
     \<and> (returns_normally cb \<longrightarrow>
          snd (chat_round env callTool cb messages resp st) = None
          \<and> (messages < length (store st) \<longrightarrow>
               store (fst (chat_round env callTool cb messages resp st)) ! messages
                 = store st ! messages @
                    [\<lparr>m_role = assistant, m_content = ContentBlocks (r_content resp)\<rparr>,
                     \<lparr>m_role = user, m_content = ContentBlocks
                        (map2 (tool_result_for env) (toolUseBlocks_of resp)
                           (map (\<lambda>(n, i, r). r) (invocations new)))\<rparr>]))"
proof -
  let ?round = "chat_round env callTool cb messages resp st"
  obtain st1 t1 where e: "emit_thinking cb resp st = (st1, t1)"
    by force
  have st1: "store st1 = store st" "logEntries st1 = logEntries st"
    using emit_thinking_char[of cb resp st] e by simp_all
  have t1: "t1 = None" if "returns_normally cb"
    using emit_thinking_normal[OF that, of resp st] e by simp
  show ?thesis
  proof (cases t1)
    case (Some err)
    with e have r: "?round = (st1, Some err)"
      by (simp add: chat_round_def)
    with e st1 t1 Some show ?thesis
      by (intro exI[of _ "[]"]) auto
  next
    case None
    obtain st2 out where x: "execute_tools env callTool cb (toolUseBlocks_of resp) st1 [] = (st2, out)"
      by force
    from execute_tools_char[OF x] obtain new where
      h: "trace st2 = trace st1 @ new" "thinking_updates new = []"
         "store st2 = store st1" "logEntries st2 = logEntries st1"
         "\<forall>rs'. out = Inr rs' \<longrightarrow>
             map (\<lambda>(n, i, r). (n, i)) (invocations new)
               = map (\<lambda>b. (b_name b, b_input b)) (toolUseBlocks_of resp)"
         "returns_normally cb \<longrightarrow>
             map (\<lambda>(n, i, r). (n, i)) (invocations new)
               = map (\<lambda>b. (b_name b, b_input b)) (toolUseBlocks_of resp)
             \<and> out = Inr ([] @ map2 (tool_result_for env) (toolUseBlocks_of resp)
                                  (map (\<lambda>(n, i, r). r) (invocations new)))"
      by blast
    show ?thesis
    proof (cases out)
      case (Inl err)
      with e None x have r: "?round = (st2, Some err)"
        by (simp add: chat_round_def)
      have "\<not> returns_normally cb"
        using h(6) Inl by auto
      with r e st1 h show ?thesis
        by (intro exI[of _ new]) auto
    next
      case (Inr toolResults)
      with e None x have r: "?round =
          (push_message messages \<lparr>m_role = user, m_content = ContentBlocks toolResults\<rparr>
             (push_message messages
                \<lparr>m_role = assistant, m_content = ContentBlocks (r_content resp)\<rparr> st2), None)"
        by (simp add: chat_round_def)
      have inv: "map (\<lambda>(n, i, r). (n, i)) (invocations new)
               = map (\<lambda>b. (b_name b, b_input b)) (toolUseBlocks_of resp)"
        using h(5) Inr by simp
      have res: "toolResults = map2 (tool_result_for env) (toolUseBlocks_of resp)
                                  (map (\<lambda>(n, i, r). r) (invocations new))"
        if "returns_normally cb"
        using h(6) that Inr by simp
      show ?thesis
        apply (rule exI[of _ new])
        using h(1-4) st1 e inv res
        by (auto simp: r push_message_def)
    qed
  qed
qed

lemma round_invocations_char:
  "\<exists>new. round_invocations env callTool cb messages resp st = invocations new
     \<and> (snd (chat_round env callTool cb messages resp st) = None \<longrightarrow>
          map (\<lambda>(n, i, r). (n, i)) (invocations new)
            = map (\<lambda>b. (b_name b, b_input b)) (toolUseBlocks_of resp))
     \<and> (returns_normally cb \<longrightarrow>
          snd (chat_round env callTool cb messages resp st) = None
          \<and> (messages < length (store st) \<longrightarrow>
               store (fst (chat_round env callTool cb messages resp st)) ! messages
                 = store st ! messages @
                    [\<lparr>m_role = assistant, m_content = ContentBlocks (r_content resp)\<rparr>,
                     \<lparr>m_role = user, m_content = ContentBlocks
                        (map2 (tool_result_for env) (toolUseBlocks_of resp)
                           (map (\<lambda>(n, i, r). r) (invocations new)))\<rparr>]))"
proof -
  from chat_round_char[of env callTool cb messages resp st] obtain new where
    h: "trace (fst (chat_round env callTool cb messages resp st))
              = trace (fst (emit_thinking cb resp st)) @ new"
     "snd (chat_round env callTool cb messages resp st) = None \<longrightarrow>
          map (\<lambda>(n, i, r). (n, i)) (invocations new)
            = map (\<lambda>b. (b_name b, b_input b)) (toolUseBlocks_of resp)"
     "returns_normally cb \<longrightarrow>
          snd (chat_round env callTool cb messages resp st) = None
          \<and> (messages < length (store st) \<longrightarrow>
               store (fst (chat_round env callTool cb messages resp st)) ! messages
                 = store st ! messages @
                    [\<lparr>m_role = assistant, m_content = ContentBlocks (r_content resp)\<rparr>,
                     \<lparr>m_role = user, m_content = ContentBlocks
                        (map2 (tool_result_for env) (toolUseBlocks_of resp)
                           (map (\<lambda>(n, i, r). r) (invocations new)))\<rparr>])"
    by (elim exE conjE) (rule that)
  have r: "round_invocations env callTool cb messages resp st = invocations new"
    unfolding round_invocations_def h(1)
    using emit_thinking_char[of cb resp st]
    by (simp add: invocations_append)
  from r h(2) h(3) show ?thesis
    by (intro exI[of _ new] conjI)
qed

lemma round_normal:
  assumes "returns_normally cb"
    and "messages < length (store st)"
  shows "\<exists>new. round_invocations env callTool cb messages resp st = invocations new
     \<and> snd (chat_round env callTool cb messages resp st) = None
     \<and> map (\<lambda>(n, i, r). (n, i)) (invocations new)
            = map (\<lambda>b. (b_name b, b_input b)) (toolUseBlocks_of resp)
     \<and> store (fst (chat_round env callTool cb messages resp st)) ! messages
                 = store st ! messages @
                    [\<lparr>m_role = assistant, m_content = ContentBlocks (r_content resp)\<rparr>,
                     \<lparr>m_role = user, m_content = ContentBlocks
                        (map2 (tool_result_for env) (toolUseBlocks_of resp)
                           (map (\<lambda>(n, i, r). r) (invocations new)))\<rparr>]"
proof -
  from round_invocations_char[of env callTool cb messages resp st] obtain new where
    h: "round_invocations env callTool cb messages resp st = invocations new"
     "snd (chat_round env callTool cb messages resp st) = None \<longrightarrow>
          map (\<lambda>(n, i, r). (n, i)) (invocations new)
            = map (\<lambda>b. (b_name b, b_input b)) (toolUseBlocks_of resp)"
     "returns_normally cb \<longrightarrow>
          snd (chat_round env callTool cb messages resp st) = None
          \<and> (messages < length (store st) \<longrightarrow>
               store (fst (chat_round env callTool cb messages resp st)) ! messages
                 = store st ! messages @
                    [\<lparr>m_role = assistant, m_content = ContentBlocks (r_content resp)\<rparr>,
                     \<lparr>m_role = user, m_content = ContentBlocks
                        (map2 (tool_result_for env) (toolUseBlocks_of resp)
                           (map (\<lambda>(n, i, r). r) (invocations new)))\<rparr>])"
    by (elim exE conjE) (rule that)
  from h(3) assms have n: "snd (chat_round env callTool cb messages resp st) = None"
    and s: "store (fst (chat_round env callTool cb messages resp st)) ! messages
                 = store st ! messages @
                    [\<lparr>m_role = assistant, m_content = ContentBlocks (r_content resp)\<rparr>,
                     \<lparr>m_role = user, m_content = ContentBlocks
                        (map2 (tool_result_for env) (toolUseBlocks_of resp)
                           (map (\<lambda>(n, i, r). r) (invocations new)))\<rparr>]"
    by simp_all
  from h(2) n have i: "map (\<lambda>(n, i, r). (n, i)) (invocations new)
            = map (\<lambda>b. (b_name b, b_input b)) (toolUseBlocks_of resp)"
    by simp
  from h(1) n i s show ?thesis
    by (intro exI[of _ new] conjI)
qed

text \<open>
  When the progress callback returns normally (or none is supplied), a round appends
  the assistant message and then one user message whose tool-result blocks are as many
  as the tool-use blocks of the response, the i-th result carrying the id of the i-th
  tool-use block, whatever the outcomes of the invocations.
\<close>

lemma results_match_when_callback_returns:
  assumes "returns_normally onInterimUpdate"
    and "messages < length (store st)"
  shows "\<exists>toolResults.
           store (fst (chat_round env callTool onInterimUpdate messages resp st)) ! messages
             = store st ! messages @
                [\<lparr>m_role = assistant, m_content = ContentBlocks (r_content resp)\<rparr>,
                 \<lparr>m_role = user, m_content = ContentBlocks toolResults\<rparr>]
         \<and> length toolResults = length (toolUseBlocks_of resp)
         \<and> map b_tool_use_id toolResults = map b_id (toolUseBlocks_of resp)
         \<and> list_all (\<lambda>block. b_type block = type_tool_result) toolResults"
proof -
  from round_normal[OF assms, of env callTool resp]
  obtain new where
    h: "map (\<lambda>(n, i, r). (n, i)) (invocations new)
          = map (\<lambda>b. (b_name b, b_input b)) (toolUseBlocks_of resp)"
       "store (fst (chat_round env callTool onInterimUpdate messages resp st)) ! messages
            = store st ! messages @
               [\<lparr>m_role = assistant, m_content = ContentBlocks (r_content resp)\<rparr>,
                \<lparr>m_role = user, m_content = ContentBlocks
                   (map2 (tool_result_for env) (toolUseBlocks_of resp)
                      (map (\<lambda>(n, i, r). r) (invocations new)))\<rparr>]"
    by blast
  let ?rs = "map2 (tool_result_for env) (toolUseBlocks_of resp)
                      (map (\<lambda>(n, i, r). r) (invocations new))"
  from arg_cong[OF h(1), of length]
  have len: "length (invocations new) = length (toolUseBlocks_of resp)"
    by simp
  have l: "length ?rs = length (toolUseBlocks_of resp)"
    using len by simp
  have ids: "map b_tool_use_id ?rs = map b_id (toolUseBlocks_of resp)"
    using len by (intro nth_equalityI) (simp_all add: tool_result_for_def)
  have tys: "list_all (\<lambda>block. b_type block = type_tool_result) ?rs"
    by (simp add: list_all_length tool_result_for_def)
  from h(2) l ids tys show ?thesis by blast
qed

text \<open>
  Claim C1. The claim fails in the code when the progress callback throws on a
  \<^verbatim>\<open>tool_complete\<close> update. That call is inside the \<^verbatim>\<open>try\<close>, after the result of
  the tool has been pushed, so the \<^verbatim>\<open>catch\<close> block pushes a second result for the same
  tool-use block. Here the response has two tool-use blocks, \<^verbatim>\<open>tu_1\<close> (which
  succeeds) and \<^verbatim>\<open>tu_2\<close> (which fails); the round completes, and the user message it
  appends has three tool-result blocks, two of them for \<^verbatim>\<open>tu_1\<close>.
\<close>

theorem C1_duplicate_result:
  "map b_id (toolUseBlocks_of demo_response1) = [Some ''tu_1'', Some ''tu_2'']
   \<and> snd (chat_round demo_env demo_callTool (throwing_onInterimUpdate tool_complete) 0
             demo_response1 demo_state) = None
   \<and> m_role (last (store (fst (chat_round demo_env demo_callTool
                 (throwing_onInterimUpdate tool_complete) 0 demo_response1 demo_state)) ! 0)) = user
   \<and> map b_tool_use_id
         (last_results (store (fst (chat_round demo_env demo_callTool
                 (throwing_onInterimUpdate tool_complete) 0 demo_response1 demo_state)) ! 0))
       = [Some ''tu_1'', Some ''tu_1'', Some ''tu_2'']
   \<and> map b_content
         (last_results (store (fst (chat_round demo_env demo_callTool
                 (throwing_onInterimUpdate tool_complete) 0 demo_response1 demo_state)) ! 0))
       = [Some ''3'', Some ''Error: render failed'', Some ''Error: MCP request failed: 500'']"
  by code_simp

subsection \<open>sendMessage\<close>

lemma sendMessage_frame:
  "store (fst (sendMessage env messages tools sys st)) = store st
   \<and> trace (fst (sendMessage env messages tools sys st)) = trace st
   \<and> toolCalls (fst (sendMessage env messages tools sys st)) = toolCalls st"
  unfolding sendMessage_def
  by (auto simp: Let_def split: prod.splits fetch_outcome.splits)

lemma sendMessage_configured:
  assumes "hasLLMConfig env"
    and "fetch_engine env
           \<lparr>rb_model = snd (getConfig env), rb_max_tokens = 4096, rb_system = sys,
            rb_tools = tools, rb_messages = store st ! messages\<rparr> (world st) = (w, outcome)"
  shows "world (fst (sendMessage env messages tools sys st)) = w
       \<and> (\<exists>entry rest. e_type entry = request
             \<and> logEntries (fst (sendMessage env messages tools sys st))
                 = logEntries st @ entry # rest)
       \<and> (\<forall>r. outcome = Ok_json r \<longrightarrow>
             snd (sendMessage env messages tools sys st) = Inr r
             \<and> map e_type (logEntries (fst (sendMessage env messages tools sys st)))
                 = map e_type (logEntries st) @ [request, response])"
  using assms unfolding sendMessage_def hasLLMConfig_def
  by (auto simp: Let_def split: prod.splits fetch_outcome.splits)

subsection \<open>Token totals\<close>

lemma sum_tokens_eq:
  "sum_tokens es (a, b) =
     (a + sum_list (map entry_input_tokens (response_entries es)),
      b + sum_list (map entry_output_tokens (response_entries es)))"
proof (induction es arbitrary: a b)
  case Nil
  then show ?case by (simp add: response_entries_def)
next
  case (Cons e es)
  show ?case
    by (simp add: Cons.IH response_entries_def entry_input_tokens_def entry_output_tokens_def
          split: entry_data.splits option.splits)
qed

text \<open>
  Claim C3. When a run returns, the two totals of its debug log are the sums of the
  input and output token counts over the response entries of that log (an entry that
  carries no usage object adds nothing).
\<close>

theorem C3_token_totals:
  assumes "chat env userMessage conversationHistory mcpTools callTool onInterimUpdate heap w
             = Some (st, Inr res)"
  shows "totalInputTokens (res_debugLogs res)
           = sum_list (map entry_input_tokens (response_entries (entries (res_debugLogs res))))
       \<and> totalOutputTokens (res_debugLogs res)
           = sum_list (map entry_output_tokens (response_entries (entries (res_debugLogs res))))"
proof -
  from assms obtain final startTime where "res = finish env startTime final st"
    unfolding chat_def
    by (auto simp: Let_def split: prod.splits sum.splits option.splits)
  then show ?thesis
    by (simp add: finish_def sum_tokens_eq)
qed

theorem C3_witness:
  "\<exists>st res.
      chat demo_env ''How many open tickets?'' 0 [] demo_callTool demo_onInterimUpdate [[]] 0
        = Some (st, Inr res)
    \<and> length (response_entries (entries (res_debugLogs res))) = 3
    \<and> totalInputTokens (res_debugLogs res) = 60
    \<and> totalOutputTokens (res_debugLogs res) = 21
    \<and> totalInputTokens (res_debugLogs res)
           = sum_list (map entry_input_tokens (response_entries (entries (res_debugLogs res))))
    \<and> totalOutputTokens (res_debugLogs res)
           = sum_list (map entry_output_tokens (response_entries (entries (res_debugLogs res))))"
proof -
  have "case chat demo_env ''How many open tickets?'' 0 [] demo_callTool demo_onInterimUpdate [[]] 0 of
          Some (st, Inr res) \<Rightarrow>
            length (response_entries (entries (res_debugLogs res))) = 3
            \<and> totalInputTokens (res_debugLogs res) = 60
            \<and> totalOutputTokens (res_debugLogs res) = 21
        | _ \<Rightarrow> False"
    by code_simp
  then obtain st res where
    run: "chat demo_env ''How many open tickets?'' 0 [] demo_callTool demo_onInterimUpdate [[]] 0
            = Some (st, Inr res)"
    and facts: "length (response_entries (entries (res_debugLogs res))) = 3"
      "totalInputTokens (res_debugLogs res) = 60" "totalOutputTokens (res_debugLogs res) = 21"
    by (cases "chat demo_env ''How many open tickets?'' 0 [] demo_callTool demo_onInterimUpdate [[]] 0")
       (auto split: sum.splits prod.splits)
  from C3_token_totals[OF run] run facts show ?thesis by blast
qed

subsection \<open>A run that ends at once\<close>

text \<open>
  Claim C4. If the engine is configured and answers the first request with a response
  whose stop reason is \<^verbatim>\<open>end_turn\<close>, then \<^verbatim>\<open>chat\<close> returns; its log holds one
  request entry followed by one response entry, the world is the one the single
  exchange left, no callback was called (so no tool was invoked), and the returned
  text is the text blocks of that response joined by a line feed.
\<close>

theorem C4_end_turn_at_once:
  assumes "hasLLMConfig env"
    and "fetch_engine env (first_request env userMessage (heap ! conversationHistory) mcpTools) w
           = (w', Ok_json resp)"
    and "r_stop_reason resp = end_turn"
  shows "\<exists>st res.
           chat env userMessage conversationHistory mcpTools callTool onInterimUpdate heap w
             = Some (st, Inr res)
         \<and> map e_type (entries (res_debugLogs res)) = [request, response]
         \<and> world st = w'
         \<and> trace st = []
         \<and> res_toolCalls res = []
         \<and> res_response res
             = join_with [CHR 0x0A]
                 (map text_of (filter (\<lambda>block. b_type block = type_text) (r_content resp)))"
proof -
  let ?st0 = "\<lparr>world = w,
                store = heap @ [heap ! conversationHistory @
                                  [\<lparr>m_role = user, m_content = ContentString userMessage\<rparr>]],
                toolCalls = [], logEntries = [], trace = []\<rparr>"
  let ?send = "sendMessage env (length heap) (mcpToolsToAnthropic mcpTools) (system_prompt env) ?st0"
  have f: "fetch_engine env
             \<lparr>rb_model = snd (getConfig env), rb_max_tokens = 4096, rb_system = system_prompt env,
              rb_tools = mcpToolsToAnthropic mcpTools,
              rb_messages = store ?st0 ! length heap\<rparr> (world ?st0) = (w', Ok_json resp)"
    using assms(2) by (simp add: first_request_def)
  from sendMessage_configured[OF assms(1) f]
  have s: "world (fst ?send) = w'" "snd ?send = Inr resp"
    "map e_type (logEntries (fst ?send)) = [request, response]"
    by simp_all
  have fr: "trace (fst ?send) = []" "toolCalls (fst ?send) = []"
    using sendMessage_frame[of env "length heap" "mcpToolsToAnthropic mcpTools" "system_prompt env" ?st0]
    by simp_all
  obtain st1 where send: "?send = (st1, Inr resp)"
    using s(2) by (cases ?send) auto
  have st1: "world st1 = w'" "map e_type (logEntries st1) = [request, response]"
    "trace st1 = []" "toolCalls st1 = []"
    using s fr send by simp_all
  have loop: "chat_loop env callTool onInterimUpdate (mcpToolsToAnthropic mcpTools) (length heap)
                resp st1 = Some (st1, Inr resp)"
    using assms(3) by (subst chat_loop.simps) simp
  have c: "chat env userMessage conversationHistory mcpTools callTool onInterimUpdate heap w
             = Some (st1, Inr (finish env (now env w) resp st1))"
    unfolding chat_def using send loop
    by (simp add: Let_def)
  have fin: "map e_type (entries (res_debugLogs (finish env (now env w) resp st1))) = [request, response]"
    "res_toolCalls (finish env (now env w) resp st1) = []"
    "res_response (finish env (now env w) resp st1)
       = join_with [CHR 0x0A]
           (map text_of (filter (\<lambda>block. b_type block = type_text) (r_content resp)))"
    using st1 by (simp_all add: finish_def joined_text_def split: prod.splits)
  show ?thesis
    apply (rule exI[of _ st1])
    apply (rule exI[of _ "finish env (now env w) resp st1"])
    using c st1 fin by simp
qed

theorem C4_witness:
  "hasLLMConfig direct_env
   \<and> fetch_engine direct_env (first_request direct_env ''Hi'' ([[]] ! 0) []) 5
        = (7, Ok_json demo_response3)
   \<and> r_stop_reason demo_response3 = end_turn
   \<and> (\<exists>st res.
           chat direct_env ''Hi'' 0 [] demo_callTool demo_onInterimUpdate [[]] 5
             = Some (st, Inr res)
         \<and> map e_type (entries (res_debugLogs res)) = [request, response]
         \<and> world st = 7
         \<and> trace st = []
         \<and> res_toolCalls res = []
         \<and> res_response res
             = join_with [CHR 0x0A]
                 (map text_of (filter (\<lambda>block. b_type block = type_text) (r_content demo_response3))))
   \<and> join_with [CHR 0x0A]
         (map text_of (filter (\<lambda>block. b_type block = type_text) (r_content demo_response3)))
       = ''Account 1 has\<newline>3 open tickets.''"
proof -
  have h1: "hasLLMConfig direct_env"
    by code_simp
  have h2: "fetch_engine direct_env (first_request direct_env ''Hi'' ([[]] ! 0) []) 5
        = (7, Ok_json demo_response3)"
    by (simp add: direct_env_def demo_env_def)
  have h3: "r_stop_reason demo_response3 = end_turn"
    by (simp add: demo_response3_def)
  have t: "join_with [CHR 0x0A]
         (map text_of (filter (\<lambda>block. b_type block = type_text) (r_content demo_response3)))
       = ''Account 1 has\<newline>3 open tickets.''"
    by code_simp
  from C4_end_turn_at_once[OF h1 h2 h3, of demo_callTool demo_onInterimUpdate] h1 h2 h3 t
  show ?thesis by blast
qed

subsection \<open>The caller's arrays\<close>

lemma chat_loop_store:
  assumes "chat_loop env callTool onInterimUpdate tools messages resp st = Some y"
  shows "messages < length (store st) \<Longrightarrow>
         length (store (fst y)) = length (store st)
       \<and> take messages (store (fst y)) = take messages (store st)
       \<and> (\<exists>appended. store (fst y) ! messages = store st ! messages @ appended)"
proof (induction env callTool onInterimUpdate tools messages resp st y rule: chat_loop.raw_induct)
  case (1 loop env callTool onInterimUpdate tools messages resp st y)
  show ?case
  proof (cases "r_stop_reason resp = tool_use")
    case False
    with 1(2) show ?thesis by auto
  next
    case True
    obtain st1 t where round: "chat_round env callTool onInterimUpdate messages resp st = (st1, t)"
      by force
    from chat_round_char[of env callTool onInterimUpdate messages resp st]
    obtain new where
      "length (store (fst (chat_round env callTool onInterimUpdate messages resp st)))
         = length (store st)"
      "take messages (store (fst (chat_round env callTool onInterimUpdate messages resp st)))
          = take messages (store st)"
      "messages < length (store st) \<longrightarrow>
          (\<exists>pushed. store (fst (chat_round env callTool onInterimUpdate messages resp st)) ! messages
                      = store st ! messages @ pushed)"
      by (elim exE conjE) (rule that)
    with round 1(3) obtain pushed where rd: "length (store st1) = length (store st)"
      "take messages (store st1) = take messages (store st)"
      "store st1 ! messages = store st ! messages @ pushed"
      by auto
    show ?thesis
    proof (cases t)
      case (Some e)
      with 1(2) True round have "y = (st1, Inl e)" by simp
      with rd show ?thesis by simp
    next
      case None
      obtain st' out where send: "sendMessage env messages tools (system_prompt env) st1 = (st', out)"
        by force
      have st': "store st' = store st1"
        using sendMessage_frame[of env messages tools "system_prompt env" st1] send by simp
      show ?thesis
      proof (cases out)
        case (Inl e)
        with 1(2) True round None send have "y = (st', Inl e)" by simp
        with st' rd show ?thesis by simp
      next
        case (Inr resp')
        with 1(2) True round None send
        have run: "loop env callTool onInterimUpdate tools messages resp' st' = Some y"
          by simp
        have "messages < length (store st')"
          using st' rd(1) 1(3) by simp
        from 1(1)[OF run this] obtain appended where
          "length (store (fst y)) = length (store st')"
          "take messages (store (fst y)) = take messages (store st')"
          "store (fst y) ! messages = store st' ! messages @ appended"
          by blast
        with st' rd show ?thesis by simp
      qed
    qed
  qed
qed fact

text \<open>
  Claim C9. When \<^verbatim>\<open>chat\<close> returns or throws, every array of the caller's heap,
  the conversation history among them, holds what it held before the call: the run
  allocated one new array, which starts with a copy of the history followed by the
  new user message, and every push went to that array.
\<close>

theorem C9_history_not_mutated:
  assumes "chat env userMessage conversationHistory mcpTools callTool onInterimUpdate heap w
             = Some (st, out)"
    and "conversationHistory < length heap"
  shows "store st ! conversationHistory = heap ! conversationHistory
       \<and> take (length heap) (store st) = heap
       \<and> length (store st) = Suc (length heap)
       \<and> (\<exists>appended.
             store st ! length heap
               = heap ! conversationHistory
                 @ \<lparr>m_role = user, m_content = ContentString userMessage\<rparr> # appended)"
proof -
  let ?st0 = "\<lparr>world = w,
                store = heap @ [heap ! conversationHistory @
                                  [\<lparr>m_role = user, m_content = ContentString userMessage\<rparr>]],
                toolCalls = [], logEntries = [], trace = []\<rparr>"
  let ?tools = "mcpToolsToAnthropic mcpTools"
  obtain st1 out1 where send: "sendMessage env (length heap) ?tools (system_prompt env) ?st0 = (st1, out1)"
    by force
  have st1: "store st1 = store ?st0"
    using sendMessage_frame[of env "length heap" ?tools "system_prompt env" ?st0] send by simp
  have "length (store st) = length (store ?st0)
      \<and> take (length heap) (store st) = take (length heap) (store ?st0)
      \<and> (\<exists>appended. store st ! length heap = store ?st0 ! length heap @ appended)"
  proof (cases out1)
    case (Inl e)
    with assms(1) send have "st = st1" unfolding chat_def by (simp add: Let_def)
    with st1 show ?thesis by simp
  next
    case (Inr resp)
    with assms(1) send obtain y where
      loop: "chat_loop env callTool onInterimUpdate ?tools (length heap) resp st1 = Some y"
      and y: "fst y = st"
      unfolding chat_def
      by (auto simp: Let_def split: option.splits sum.splits prod.splits)
    have "length heap < length (store st1)"
      using st1 by simp
    from chat_loop_store[OF loop this] y st1 show ?thesis by simp
  qed
  then obtain appended where t: "take (length heap) (store st) = heap"
    and l: "length (store st) = Suc (length heap)"
    and a: "store st ! length heap
              = heap ! conversationHistory
                @ \<lparr>m_role = user, m_content = ContentString userMessage\<rparr> # appended"
    by auto
  have "store st ! conversationHistory = take (length heap) (store st) ! conversationHistory"
    using assms(2) by simp
  with t l a show ?thesis by simp
qed

theorem C9_witness:
  "\<exists>st out.
      chat demo_env ''How many open tickets?'' 0 [] demo_callTool demo_onInterimUpdate
        [[\<lparr>m_role = user, m_content = ContentString ''Hello''\<rparr>]] 0 = Some (st, out)
    \<and> (0::nat) < length [[\<lparr>m_role = user, m_content = ContentString ''Hello''\<rparr>]]
    \<and> store st ! 0 = [[\<lparr>m_role = user, m_content = ContentString ''Hello''\<rparr>]] ! 0
    \<and> take (length [[\<lparr>m_role = user, m_content = ContentString ''Hello''\<rparr>]]) (store st)
         = [[\<lparr>m_role = user, m_content = ContentString ''Hello''\<rparr>]]
    \<and> length (store st ! 1) = 6"
proof -
  let ?heap = "[[\<lparr>m_role = user, m_content = ContentString ''Hello''\<rparr>]]"
  have "case chat demo_env ''How many open tickets?'' 0 [] demo_callTool demo_onInterimUpdate
          ?heap 0 of
          Some (st, out) \<Rightarrow> length (store st ! 1) = 6
        | None \<Rightarrow> False"
    by code_simp
  then obtain st out where
    run: "chat demo_env ''How many open tickets?'' 0 [] demo_callTool demo_onInterimUpdate
            ?heap 0 = Some (st, out)"
    and len: "length (store st ! 1) = 6"
    by (cases "chat demo_env ''How many open tickets?'' 0 [] demo_callTool demo_onInterimUpdate ?heap 0")
       auto
  have h: "(0::nat) < length ?heap" by simp
  from C9_history_not_mutated[OF run h] run h len show ?thesis
    by blast
qed

subsection \<open>The thinking update\<close>

text \<open>
  Claim C8, as the code has it. The events a round adds to the trace are: first the
  thinking update, present exactly when a callback is supplied, the response has a text
  block and the joined text is not blank (empty, or white space only, the no-break
  space included); then the events of the tool loop, which hold no thinking update and,
  when no call of the callback ends the round by a throw, one invocation for each
  tool-use block, in order. The update carries the text blocks joined by a line feed.
\<close>

theorem C8_thinking_before_tools:
  "\<exists>tool_events.
      trace (fst (chat_round env callTool onInterimUpdate messages resp st))
        = trace st @
          (if onInterimUpdate \<noteq> None
              \<and> filter (\<lambda>block. b_type block = type_text) (r_content resp) \<noteq> []
              \<and> trim (joined_text (r_content resp)) \<noteq> []
           then [Update (thinking_update resp)] else [])
          @ tool_events
    \<and> thinking_updates tool_events = []
    \<and> (snd (chat_round env callTool onInterimUpdate messages resp st) = None \<longrightarrow>
         map (\<lambda>(n, i, r). (n, i)) (invocations tool_events)
           = map (\<lambda>b. (b_name b, b_input b)) (toolUseBlocks_of resp))"
proof -
  from chat_round_char[of env callTool onInterimUpdate messages resp st] obtain new where
    h: "trace (fst (chat_round env callTool onInterimUpdate messages resp st))
              = trace (fst (emit_thinking onInterimUpdate resp st)) @ new"
     "thinking_updates new = []"
     "snd (chat_round env callTool onInterimUpdate messages resp st) = None \<longrightarrow>
          map (\<lambda>(n, i, r). (n, i)) (invocations new)
            = map (\<lambda>b. (b_name b, b_input b)) (toolUseBlocks_of resp)"
    by (elim exE conjE) (rule that)
  show ?thesis
    apply (rule exI[of _ new])
    using h emit_thinking_char[of onInterimUpdate resp st]
    by simp
qed

theorem C8_witness:
  "(\<exists>tool_events.
      trace (fst (chat_round demo_env demo_callTool demo_onInterimUpdate 0 two_text_response
                    demo_state))
        = trace demo_state @ [Update (thinking_update two_text_response)] @ tool_events
    \<and> thinking_updates tool_events = []
    \<and> map (\<lambda>(n, i, r). (n, i)) (invocations tool_events)
         = map (\<lambda>b. (b_name b, b_input b)) (toolUseBlocks_of two_text_response))
   \<and> thinking_update two_text_response
       = \<lparr>u_type = thinking, u_content = Some ''Checking.\<newline>One moment.'', u_toolName = None,
          u_toolInput = None, u_toolResult = None, u_error = None\<rparr>
   \<and> thinking_updates
         (trace (fst (chat_round demo_env demo_callTool demo_onInterimUpdate 0 two_text_response
                        demo_state)))
       = [\<lparr>u_type = thinking, u_content = Some ''Checking.\<newline>One moment.'', u_toolName = None,
           u_toolInput = None, u_toolResult = None, u_error = None\<rparr>]"
proof -
  have c: "demo_onInterimUpdate \<noteq> None
              \<and> filter (\<lambda>block. b_type block = type_text) (r_content two_text_response) \<noteq> []
              \<and> trim (joined_text (r_content two_text_response)) \<noteq> []"
    by (simp add: demo_onInterimUpdate_def two_text_response_def text_block_def tool_use_block_def
          joined_text_def text_of_def trim_def js_whitespace_def)
  have n: "snd (chat_round demo_env demo_callTool demo_onInterimUpdate 0 two_text_response
                  demo_state) = None"
    by code_simp
  have u: "thinking_update two_text_response
       = \<lparr>u_type = thinking, u_content = Some ''Checking.\<newline>One moment.'', u_toolName = None,
          u_toolInput = None, u_toolResult = None, u_error = None\<rparr>"
    by code_simp
  have t: "thinking_updates
         (trace (fst (chat_round demo_env demo_callTool demo_onInterimUpdate 0 two_text_response
                        demo_state)))
       = [\<lparr>u_type = thinking, u_content = Some ''Checking.\<newline>One moment.'', u_toolName = None,
           u_toolInput = None, u_toolResult = None, u_error = None\<rparr>]"
    by code_simp
  from C8_thinking_before_tools[of demo_env demo_callTool demo_onInterimUpdate 0
      two_text_response demo_state] c n u t
  show ?thesis by simp
qed

text \<open>
  The claim as the specification words it fails: a response whose only text block is
  a blank has a text block, the callback is supplied, the response asks for a tool,
  and yet the round emits no thinking update.
\<close>

theorem C8_counterexample:
  "demo_onInterimUpdate \<noteq> None
   \<and> filter (\<lambda>block. b_type block = type_text) (r_content blank_response) \<noteq> []
   \<and> r_stop_reason blank_response = tool_use
   \<and> thinking_updates
        (trace (fst (chat_round demo_env demo_callTool demo_onInterimUpdate 0 blank_response
                       demo_state)))
       = []"
proof -
  have a: "demo_onInterimUpdate \<noteq> None"
    by (simp add: demo_onInterimUpdate_def)
  have b: "filter (\<lambda>block. b_type block = type_text) (r_content blank_response) \<noteq> []"
    by code_simp
  have c: "r_stop_reason blank_response = tool_use"
    by code_simp
  have d: "thinking_updates
        (trace (fst (chat_round demo_env demo_callTool demo_onInterimUpdate 0 blank_response
                       demo_state)))
       = []"
    by code_simp
  from a b c d show ?thesis by simp
qed

text \<open>The same for a text that holds a no-break space between two line feeds.\<close>

lemma no_break_space_is_blank:
  "trim (joined_text (r_content nbsp_response)) = []
   \<and> thinking_updates
        (trace (fst (chat_round demo_env demo_callTool demo_onInterimUpdate 0 nbsp_response
                       demo_state)))
       = []"
  by code_simp

subsection \<open>A failing tool does not end the run\<close>

text \<open>
  Claim C2, as the code has it. The progress callback, when supplied, returns
  normally. In a round that the engine's response opens (stop reason \<^verbatim>\<open>tool_use\<close>),
  let the i-th invocation of \<^verbatim>\<open>callTool\<close> reject with \<open>err\<close>. Then the round does
  not throw; it ends with the user message of tool results, one per tool-use block,
  whose i-th block answers the i-th tool-use block with the content \<^verbatim>\<open>Error: \<close>
  followed by the message of \<open>err\<close> (by \<^verbatim>\<open>Unknown error\<close> when \<open>err\<close> is not an
  \<^verbatim>\<open>Error\<close>); every tool-use block of the round was invoked, in order; the engine
  is called again, with the extended message list; and what the loop gives is what
  that next call and the rounds after it give: the rejection itself is never thrown.
\<close>

theorem C2_tool_failure_contained:
  assumes "r_stop_reason resp = tool_use"
    and "hasLLMConfig env"
    and "messages < length (store st)"
    and "returns_normally onInterimUpdate"
    and "i < length (toolUseBlocks_of resp)"
    and "snd (snd (round_invocations env callTool onInterimUpdate messages resp st ! i)) = Inl err"
    and "sendMessage env messages tools (system_prompt env)
           (fst (chat_round env callTool onInterimUpdate messages resp st)) = (st', out)"
  shows "snd (chat_round env callTool onInterimUpdate messages resp st) = None
       \<and> (\<exists>toolResults.
            last (store (fst (chat_round env callTool onInterimUpdate messages resp st)) ! messages)
              = \<lparr>m_role = user, m_content = ContentBlocks toolResults\<rparr>
          \<and> length toolResults = length (toolUseBlocks_of resp)
          \<and> b_tool_use_id (toolResults ! i) = b_id (toolUseBlocks_of resp ! i)
          \<and> b_content (toolResults ! i)
              = Some (case err of Error m \<Rightarrow> ''Error: '' @ m
                               | NonError \<Rightarrow> ''Error: Unknown error''))
       \<and> map (\<lambda>(n, inp, r). (n, inp))
             (round_invocations env callTool onInterimUpdate messages resp st)
           = map (\<lambda>b. (b_name b, b_input b)) (toolUseBlocks_of resp)
       \<and> world st'
           = fst (fetch_engine env
                \<lparr>rb_model = snd (getConfig env), rb_max_tokens = 4096,
                 rb_system = system_prompt env, rb_tools = tools,
                 rb_messages = store (fst (chat_round env callTool onInterimUpdate messages resp st))
                                 ! messages\<rparr>
                (world (fst (chat_round env callTool onInterimUpdate messages resp st))))
       \<and> chat_loop env callTool onInterimUpdate tools messages resp st
           = (case out of
                Inl e \<Rightarrow> Some (st', Inl e)
              | Inr resp' \<Rightarrow> chat_loop env callTool onInterimUpdate tools messages resp' st')"
proof -
  let ?round = "fst (chat_round env callTool onInterimUpdate messages resp st)"
  let ?blocks = "toolUseBlocks_of resp"
  from round_normal[OF assms(4) assms(3), of env callTool resp]
  obtain new where
    h: "round_invocations env callTool onInterimUpdate messages resp st = invocations new"
       "snd (chat_round env callTool onInterimUpdate messages resp st) = None"
       "map (\<lambda>(n, i, r). (n, i)) (invocations new) = map (\<lambda>b. (b_name b, b_input b)) ?blocks"
       "store ?round ! messages
            = store st ! messages @
               [\<lparr>m_role = assistant, m_content = ContentBlocks (r_content resp)\<rparr>,
                \<lparr>m_role = user, m_content = ContentBlocks
                   (map2 (tool_result_for env) ?blocks
                      (map (\<lambda>(n, i, r). r) (invocations new)))\<rparr>]"
    by (elim exE conjE) (rule that)
  let ?rs = "map2 (tool_result_for env) ?blocks (map (\<lambda>(n, i, r). r) (invocations new))"
  from arg_cong[OF h(3), of length]
  have len: "length (invocations new) = length ?blocks"
    by simp
  have outcome: "(\<lambda>(n, i, r). r) (invocations new ! i) = Inl err"
    using assms(6) h(1) by (simp add: case_prod_beta)
  have ri: "?rs ! i = tool_result_for env (?blocks ! i) (Inl err)"
    using len assms(5) outcome by simp
  have r1: "last (store ?round ! messages) = \<lparr>m_role = user, m_content = ContentBlocks ?rs\<rparr>"
    using h(4) by simp
  have r2: "length ?rs = length ?blocks"
    using len by simp
  have r3: "b_tool_use_id (?rs ! i) = b_id (?blocks ! i)"
    unfolding ri by (simp add: tool_result_for_def)
  have r4: "b_content (?rs ! i)
              = Some (case err of Error m \<Rightarrow> ''Error: '' @ m
                               | NonError \<Rightarrow> ''Error: Unknown error'')"
    unfolding ri by (cases err) (simp_all add: tool_result_for_def)
  have all_invoked: "map (\<lambda>(n, inp, r). (n, inp))
             (round_invocations env callTool onInterimUpdate messages resp st)
           = map (\<lambda>b. (b_name b, b_input b)) ?blocks"
    using h(1) h(3) by simp
  obtain w outcome where f: "fetch_engine env
                \<lparr>rb_model = snd (getConfig env), rb_max_tokens = 4096,
                 rb_system = system_prompt env, rb_tools = tools,
                 rb_messages = store ?round ! messages\<rparr> (world ?round) = (w, outcome)"
    by force
  from sendMessage_configured[OF assms(2) f] assms(7)
  have engine: "world st' = fst (fetch_engine env
                \<lparr>rb_model = snd (getConfig env), rb_max_tokens = 4096,
                 rb_system = system_prompt env, rb_tools = tools,
                 rb_messages = store ?round ! messages\<rparr> (world ?round))"
    using f by simp
  obtain st1 where rd: "chat_round env callTool onInterimUpdate messages resp st = (st1, None)"
    using h(2) by (cases "chat_round env callTool onInterimUpdate messages resp st") auto
  have loop: "chat_loop env callTool onInterimUpdate tools messages resp st
           = (case out of
                Inl e \<Rightarrow> Some (st', Inl e)
              | Inr resp' \<Rightarrow> chat_loop env callTool onInterimUpdate tools messages resp' st')"
    using assms(1) assms(7) by (subst chat_loop.simps) (simp add: rd)
  from r1 r2 r3 r4 have ex: "\<exists>toolResults.
            last (store ?round ! messages) = \<lparr>m_role = user, m_content = ContentBlocks toolResults\<rparr>
          \<and> length toolResults = length ?blocks
          \<and> b_tool_use_id (toolResults ! i) = b_id (?blocks ! i)
          \<and> b_content (toolResults ! i)
              = Some (case err of Error m \<Rightarrow> ''Error: '' @ m
                               | NonError \<Rightarrow> ''Error: Unknown error'')"
    by (intro exI[of _ ?rs] conjI)
  from h(2) ex all_invoked engine loop show ?thesis
    by (intro conjI)
qed

theorem C2_witness:
  "r_stop_reason demo_response1 = tool_use
   \<and> hasLLMConfig demo_env
   \<and> 0 < length (store demo_state)
   \<and> 1 < length (toolUseBlocks_of demo_response1)
   \<and> snd (snd (round_invocations demo_env demo_callTool demo_onInterimUpdate 0
                   demo_response1 demo_state ! 1))
       = Inl (Error ''MCP request failed: 500'')
   \<and> snd (chat_round demo_env demo_callTool demo_onInterimUpdate 0 demo_response1 demo_state) = None
   \<and> (\<exists>toolResults.
          last (store (fst (chat_round demo_env demo_callTool demo_onInterimUpdate 0 demo_response1 demo_state)) ! 0)
            = \<lparr>m_role = user, m_content = ContentBlocks toolResults\<rparr>
        \<and> length toolResults = 2
        \<and> b_tool_use_id (toolResults ! 1) = Some ''tu_2''
        \<and> b_content (toolResults ! 1) = Some ''Error: MCP request failed: 500'')
   \<and> map b_content (last_results (store (fst (chat_round demo_env demo_callTool demo_onInterimUpdate 0 demo_response1 demo_state)) ! 0))
       = [Some ''3'', Some ''Error: MCP request failed: 500'']
   \<and> map (\<lambda>(n, inp, r). (n, inp))
         (round_invocations demo_env demo_callTool demo_onInterimUpdate 0 demo_response1 demo_state)
       = [(Some ''queryData'', Some (JObject [(''query'', JString ''SELECT 1'')])),
          (Some ''getSchema'', Some (JObject []))]
   \<and> snd (sendMessage demo_env 0 [] (system_prompt demo_env)
            (fst (chat_round demo_env demo_callTool demo_onInterimUpdate 0 demo_response1 demo_state))) = Inr demo_response2
   \<and> chat_loop demo_env demo_callTool demo_onInterimUpdate [] 0 demo_response1 demo_state
       = chat_loop demo_env demo_callTool demo_onInterimUpdate [] 0 demo_response2 (fst (sendMessage demo_env 0 [] (system_prompt demo_env)
            (fst (chat_round demo_env demo_callTool demo_onInterimUpdate 0 demo_response1 demo_state))))
   \<and> map_option snd
         (chat_loop demo_env demo_callTool demo_onInterimUpdate [] 0 demo_response1 demo_state)
       = Some (Inr demo_response3)"
proof -
  have h1: "r_stop_reason demo_response1 = tool_use"
    by code_simp
  have h2: "hasLLMConfig demo_env"
    by code_simp
  have h3: "0 < length (store demo_state)"
    by (simp add: demo_state_def)
  have h4: "returns_normally demo_onInterimUpdate"
    by (simp add: returns_normally_def demo_onInterimUpdate_def)
  have h5: "1 < length (toolUseBlocks_of demo_response1)"
    by code_simp
  have h6: "snd (snd (round_invocations demo_env demo_callTool demo_onInterimUpdate 0
                   demo_response1 demo_state ! 1))
       = Inl (Error ''MCP request failed: 500'')"
    by code_simp
  have h7: "(sendMessage demo_env 0 [] (system_prompt demo_env)
            (fst (chat_round demo_env demo_callTool demo_onInterimUpdate 0 demo_response1 demo_state))) = (fst (sendMessage demo_env 0 [] (system_prompt demo_env)
            (fst (chat_round demo_env demo_callTool demo_onInterimUpdate 0 demo_response1 demo_state))), snd (sendMessage demo_env 0 [] (system_prompt demo_env)
            (fst (chat_round demo_env demo_callTool demo_onInterimUpdate 0 demo_response1 demo_state))))"
    by simp
  have blocks: "length (toolUseBlocks_of demo_response1) = 2"
    "b_id (toolUseBlocks_of demo_response1 ! 1) = Some ''tu_2''"
    "map (\<lambda>b. (b_name b, b_input b)) (toolUseBlocks_of demo_response1)
       = [(Some ''queryData'', Some (JObject [(''query'', JString ''SELECT 1'')])),
          (Some ''getSchema'', Some (JObject []))]"
    by code_simp+
  have contents: "map b_content (last_results (store (fst (chat_round demo_env demo_callTool demo_onInterimUpdate 0 demo_response1 demo_state)) ! 0))
       = [Some ''3'', Some ''Error: MCP request failed: 500'']"
    by code_simp
  have next_response: "snd (sendMessage demo_env 0 [] (system_prompt demo_env)
            (fst (chat_round demo_env demo_callTool demo_onInterimUpdate 0 demo_response1 demo_state))) = Inr demo_response2"
    by code_simp
  have final: "map_option snd
         (chat_loop demo_env demo_callTool demo_onInterimUpdate [] 0 demo_response1 demo_state)
       = Some (Inr demo_response3)"
    by code_simp
  from C2_tool_failure_contained[OF h1 h2 h3 h4 h5 h6 h7]
    h1 h2 h3 h5 h6 blocks contents next_response final
  show ?thesis by simp
qed

lemma chat_throws_in_first_round:
  assumes "sendMessage env (length heap) (mcpToolsToAnthropic mcpTools) (system_prompt env)
             \<lparr>world = w,
              store = heap @ [heap ! conversationHistory @
                                [\<lparr>m_role = user, m_content = ContentString userMessage\<rparr>]],
              toolCalls = [], logEntries = [], trace = []\<rparr> = (st1, Inr resp)"
    and "r_stop_reason resp = tool_use"
    and "chat_round env callTool onInterimUpdate (length heap) resp st1 = (st2, Some e)"
  shows "chat env userMessage conversationHistory mcpTools callTool onInterimUpdate heap w
           = Some (st2, Inl e)"
proof -
  have "chat_loop env callTool onInterimUpdate (mcpToolsToAnthropic mcpTools) (length heap) resp st1
          = Some (st2, Inl e)"
    using assms(2,3) by (subst chat_loop.simps) simp
  with assms(1) show ?thesis
    by (simp add: chat_def Let_def)
qed

text \<open>
  The claim as the specification words it fails when the progress callback throws on
  the \<^verbatim>\<open>tool_error\<close> update, which the \<^verbatim>\<open>catch\<close> block sends outside any \<^verbatim>\<open>try\<close>:
  the second of the two tools of the round rejects, and \<^verbatim>\<open>chat\<close> throws what the
  callback threw.
\<close>

theorem C2_counterexample:
  "map_option (invocations \<circ> trace \<circ> fst)
       (chat demo_env ''How many open tickets?'' 0 [] demo_callTool
          (throwing_onInterimUpdate tool_error) [[]] 0)
     = Some [(Some ''queryData'', Some (JObject [(''query'', JString ''SELECT 1'')]),
                Inr (Some (JNumber 3))),
             (Some ''getSchema'', Some (JObject []), Inl (Error ''MCP request failed: 500''))]
   \<and> map_option snd
         (chat demo_env ''How many open tickets?'' 0 [] demo_callTool
            (throwing_onInterimUpdate tool_error) [[]] 0)
       = Some (Inl (Error ''render failed''))"
proof -
  let ?st1 = "fst (sendMessage demo_env (length ([[]]::AnthropicMessage list list)) (mcpToolsToAnthropic []) (system_prompt demo_env)
           \<lparr>world = (0::nat),
               store = [[]] @ [[[]] ! 0 @
                          [\<lparr>m_role = user, m_content = ContentString ''How many open tickets?''\<rparr>]],
               toolCalls = [], logEntries = [], trace = []\<rparr>)"
  let ?round = "chat_round demo_env demo_callTool (throwing_onInterimUpdate tool_error)
                  (length ([[]]::AnthropicMessage list list)) demo_response1 ?st1"
  have "snd (sendMessage demo_env (length ([[]]::AnthropicMessage list list)) (mcpToolsToAnthropic []) (system_prompt demo_env)
           \<lparr>world = (0::nat),
               store = [[]] @ [[[]] ! 0 @
                          [\<lparr>m_role = user, m_content = ContentString ''How many open tickets?''\<rparr>]],
               toolCalls = [], logEntries = [], trace = []\<rparr>) = Inr demo_response1"
    by code_simp
  then have send: "(sendMessage demo_env (length ([[]]::AnthropicMessage list list)) (mcpToolsToAnthropic []) (system_prompt demo_env)
           \<lparr>world = (0::nat),
               store = [[]] @ [[[]] ! 0 @
                          [\<lparr>m_role = user, m_content = ContentString ''How many open tickets?''\<rparr>]],
               toolCalls = [], logEntries = [], trace = []\<rparr>) = (?st1, Inr demo_response1)"
    by (simp add: prod_eq_iff)
  have stop: "r_stop_reason demo_response1 = tool_use"
    by code_simp
  have "snd ?round = Some (Error ''render failed'')"
    by code_simp
  then have round: "?round = (fst ?round, Some (Error ''render failed''))"
    by (simp add: prod_eq_iff)
  have inv: "invocations (trace (fst ?round))
     = [(Some ''queryData'', Some (JObject [(''query'', JString ''SELECT 1'')]),
                Inr (Some (JNumber 3))),
        (Some ''getSchema'', Some (JObject []), Inl (Error ''MCP request failed: 500''))]"
    by code_simp
  from chat_throws_in_first_round[OF send stop round]
  have "chat demo_env ''How many open tickets?'' 0 [] demo_callTool
          (throwing_onInterimUpdate tool_error) [[]] 0
        = Some (fst ?round, Inl (Error ''render failed''))" .
  with inv show ?thesis
    by simp
qed

section \<open>Properties of the tool gateway client\<close>

subsection \<open>The event-stream path\<close>

lemma truthy_iff: "truthy v \<longleftrightarrow> v \<notin> {JNull, JBool False, JNumber 0, JString []}"
  by (cases v) auto

lemma sse_scan_last:
  assumes blank: "\<And>s. trim s = [] \<Longrightarrow> isl (parse s)"
  shows "sse_scan parse lines d =
           last (d # List.map_filter
                  (\<lambda>line. if startsWith line ''data: '' then
                            (case parse (drop 6 line) of Inr v \<Rightarrow> Some v | Inl e \<Rightarrow> None)
                          else None) lines)"
proof (induction lines arbitrary: d)
  case Nil
  then show ?case by (simp add: map_filter_simps)
next
  case (Cons line lines)
  show ?case
  proof (cases "startsWith line ''data: ''")
    case False
    then show ?thesis by (simp add: Cons.IH map_filter_simps)
  next
    case True
    show ?thesis
    proof (cases "parse (drop 6 line)")
      case (Inl e)
      with True show ?thesis by (simp add: Cons.IH map_filter_simps Let_def)
    next
      case (Inr v)
      with blank[of "drop 6 line"] have "trim (drop 6 line) \<noteq> []" by auto
      with True Inr show ?thesis by (simp add: Cons.IH map_filter_simps Let_def)
    qed
  qed
qed

lemma sse_result_payloads:
  assumes "\<And>s. trim s = [] \<Longrightarrow> isl (JSON_parse env s)"
  shows "sse_result env body =
           (case data_payloads (JSON_parse env) body of
              [] \<Rightarrow> Inl (Error ''No valid JSON data in SSE response'')
            | p # ps \<Rightarrow>
                (if truthy (last (p # ps)) then respond env (last (p # ps))
                 else Inl (Error ''No valid JSON data in SSE response'')))"
proof -
  have scan: "sse_scan (JSON_parse env) (split_on (CHR 0x0A) body) JNull
                = last (JNull # data_payloads (JSON_parse env) body)"
    unfolding data_payloads_def using assms by (rule sse_scan_last)
  show ?thesis
  proof (cases "data_payloads (JSON_parse env) body")
    case Nil
    with scan show ?thesis by (simp add: sse_result_def)
  next
    case (Cons p ps)
    with scan show ?thesis by (simp add: sse_result_def Let_def)
  qed
qed

lemma respond_cases:
  "respond env d =
     (case get_prop d ''error'' of
        None \<Rightarrow> Inr (get_prop d ''result'')
      | Some e \<Rightarrow>
          if e \<in> {JNull, JBool False, JNumber 0, JString []} then Inr (get_prop d ''result'')
          else (case get_prop e ''message'' of
                  None \<Rightarrow> Inl (Error [])
                | Some (JString m) \<Rightarrow> Inl (Error m)
                | Some v \<Rightarrow> Inl (Error (String_of env v))))"
  unfolding respond_def error_message_def truthy_iff
  by (simp split: option.splits json.splits)

lemma mcpRequest_state:
  "fst (mcpRequest env token method params st) =
     \<lparr>requestId = js_increment (requestId st),
      mcp_world = fst (mcp_fetch env token
                    \<lparr>rq_jsonrpc = ''2.0'', rq_id = js_increment (requestId st),
                     rq_method = method, rq_params = params\<rparr> (mcp_world st)),
      sent = sent st @ [\<lparr>rq_jsonrpc = ''2.0'', rq_id = js_increment (requestId st),
                     rq_method = method, rq_params = params\<rparr>]\<rparr>"
  unfolding mcpRequest_def
  by (simp add: Let_def split: prod.splits sum.splits)

lemma mcpRequest_ok:
  assumes "mcp_fetch env token
           \<lparr>rq_jsonrpc = ''2.0'', rq_id = js_increment (requestId st),
            rq_method = method, rq_params = params\<rparr> (mcp_world st) = (w, Inr resp)"
    and "hr_ok resp"
    and "hr_body resp = Inr body"
  shows "snd (mcpRequest env token method params st) =
           (if includes_str (case hr_content_type resp of None \<Rightarrow> [] | Some c \<Rightarrow> c)
                 ''text/event-stream''
            then sse_result env body else plain_result env body)"
  unfolding mcpRequest_def using assms
  by (simp add: Let_def del: includes_str.simps)

lemma demo_mcpRequest:
  assumes "hr_ok resp" and "hr_body resp = Inr body"
  shows "snd (mcpRequest (demo_mcp_env resp) ''jwt'' ''tools/call'' None (mcp_init 0)) =
           (if includes_str (case hr_content_type resp of None \<Rightarrow> [] | Some c \<Rightarrow> c)
                 ''text/event-stream''
            then sse_result (demo_mcp_env resp) body else plain_result (demo_mcp_env resp) body)"
proof -
  have "mcp_fetch (demo_mcp_env resp) ''jwt''
           \<lparr>rq_jsonrpc = ''2.0'', rq_id = js_increment (requestId (mcp_init (0::nat))),
            rq_method = ''tools/call'', rq_params = None\<rparr> (mcp_world (mcp_init 0))
         = (1, Inr resp)"
    by (simp add: demo_mcp_env_def mcp_init_def)
  from mcpRequest_ok[OF this assms] show ?thesis .
qed

text \<open>
  Claim C5, as the code has it. \<^verbatim>\<open>JSON.parse\<close> rejects blank text. For a response
  with an ok status whose content-type header includes the text
  \<^verbatim>\<open>text/event-stream\<close>, in these lower-case letters, \<^verbatim>\<open>mcpRequest\<close> looks at the
  last line that starts with \<^verbatim>\<open>data: \<close> and parses as JSON. It throws
  \<^verbatim>\<open>No valid JSON data in SSE response\<close> when there is no such line or when that
  payload is one of the falsy values \<^verbatim>\<open>null\<close>, \<^verbatim>\<open>false\<close>, \<^verbatim>\<open>0\<close> and the empty
  string. Otherwise it throws an error with the message of the payload's \<^verbatim>\<open>error\<close>
  property when that property is present and not falsy (the empty message when the
  property has no \<^verbatim>\<open>message\<close>, the message converted to a string when it is not
  one), and returns the payload's \<^verbatim>\<open>result\<close> property when it is not. For a payload
  that is not falsy this is what the plain-JSON path gives for a body that parses to
  the same payload.
\<close>

theorem C5_event_stream_payload:
  assumes "\<And>s. trim s = [] \<Longrightarrow> isl (JSON_parse env s)"
    and "mcp_fetch env token
           \<lparr>rq_jsonrpc = ''2.0'', rq_id = js_increment (requestId st),
            rq_method = method, rq_params = params\<rparr> (mcp_world st) = (w, Inr resp)"
    and "hr_ok resp"
    and "hr_content_type resp = Some contentType"
    and "includes_str contentType ''text/event-stream''"
    and "hr_body resp = Inr body"
  shows "snd (mcpRequest env token method params st) =
           (case data_payloads (JSON_parse env) body of
              [] \<Rightarrow> Inl (Error ''No valid JSON data in SSE response'')
            | p # ps \<Rightarrow>
                (if last (p # ps) \<in> {JNull, JBool False, JNumber 0, JString []}
                 then Inl (Error ''No valid JSON data in SSE response'')
                 else (case get_prop (last (p # ps)) ''error'' of
                         None \<Rightarrow> Inr (get_prop (last (p # ps)) ''result'')
                       | Some e \<Rightarrow>
                           if e \<in> {JNull, JBool False, JNumber 0, JString []}
                           then Inr (get_prop (last (p # ps)) ''result'')
                           else (case get_prop e ''message'' of
                                   None \<Rightarrow> Inl (Error [])
                                 | Some (JString m) \<Rightarrow> Inl (Error m)
                                 | Some v \<Rightarrow> Inl (Error (String_of env v))))))
       \<and> (\<forall>body'.
             data_payloads (JSON_parse env) body \<noteq> []
             \<and> last (data_payloads (JSON_parse env) body) \<notin> {JNull, JBool False, JNumber 0, JString []}
             \<and> JSON_parse env body' = Inr (last (data_payloads (JSON_parse env) body))
             \<longrightarrow> snd (mcpRequest env token method params st) = plain_result env body')"
proof -
  have r: "snd (mcpRequest env token method params st) = sse_result env body"
    unfolding mcpRequest_def using assms(2-6)
    by (simp add: Let_def)
  have p: "sse_result env body =
           (case data_payloads (JSON_parse env) body of
              [] \<Rightarrow> Inl (Error ''No valid JSON data in SSE response'')
            | p # ps \<Rightarrow>
                (if truthy (last (p # ps)) then respond env (last (p # ps))
                 else Inl (Error ''No valid JSON data in SSE response'')))"
    using assms(1) by (rule sse_result_payloads)
  have first: "snd (mcpRequest env token method params st) =
           (case data_payloads (JSON_parse env) body of
              [] \<Rightarrow> Inl (Error ''No valid JSON data in SSE response'')
            | p # ps \<Rightarrow>
                (if last (p # ps) \<in> {JNull, JBool False, JNumber 0, JString []}
                 then Inl (Error ''No valid JSON data in SSE response'')
                 else (case get_prop (last (p # ps)) ''error'' of
                         None \<Rightarrow> Inr (get_prop (last (p # ps)) ''result'')
                       | Some e \<Rightarrow>
                           if e \<in> {JNull, JBool False, JNumber 0, JString []}
                           then Inr (get_prop (last (p # ps)) ''result'')
                           else (case get_prop e ''message'' of
                                   None \<Rightarrow> Inl (Error [])
                                 | Some (JString m) \<Rightarrow> Inl (Error m)
                                 | Some v \<Rightarrow> Inl (Error (String_of env v))))))"
  proof (cases "data_payloads (JSON_parse env) body")
    case Nil
    then show ?thesis unfolding r p by simp
  next
    case (Cons p ps)
    show ?thesis
      unfolding r p Cons list.case truthy_iff respond_cases[of env "last (p # ps)"]
      by (cases "last (p # ps) \<in> {JNull, JBool False, JNumber 0, JString []}") (simp_all only: if_True if_False not_True_eq_False not_False_eq_True)
  qed
  have second: "snd (mcpRequest env token method params st) = plain_result env body'"
    if "data_payloads (JSON_parse env) body \<noteq> []"
      and "last (data_payloads (JSON_parse env) body) \<notin> {JNull, JBool False, JNumber 0, JString []}"
      and "JSON_parse env body' = Inr (last (data_payloads (JSON_parse env) body))" for body'
  proof -
    from that(1) obtain p ps where c: "data_payloads (JSON_parse env) body = p # ps"
      by (cases "data_payloads (JSON_parse env) body") auto
    from that(2) c have t: "truthy (last (p # ps))" "last (p # ps) \<noteq> JNull"
      by (simp_all add: truthy_iff)
    from that(3) c have "plain_result env body' = respond env (last (p # ps))"
      using t(2) by (simp add: plain_result_def)
    with c t(1) show ?thesis
      unfolding r p by simp
  qed
  from first second show ?thesis by blast
qed

lemma demo_parse_blank: "trim s = [] \<Longrightarrow> isl (demo_parse s)"
proof -
  assume b: "trim s = []"
  have "trim payload_result \<noteq> []" "trim payload_error \<noteq> []" "trim ''null'' \<noteq> []"
    "trim ''0'' \<noteq> []"
    by code_simp+
  with b have "s \<noteq> payload_result" "s \<noteq> payload_error" "s \<noteq> ''null''" "s \<noteq> ''0''"
    by auto
  then show ?thesis
    by (simp add: demo_parse_def)
qed

theorem C5_witness:
  "data_payloads demo_parse stream_body
     = [JObject [(''jsonrpc'', JString ''2.0''), (''id'', JNumber 1),
                 (''error'', JObject [(''code'', JNumber (- 32000)),
                                      (''message'', JString ''boom'')])],
        JObject [(''jsonrpc'', JString ''2.0''), (''id'', JNumber 1), (''result'', JNumber 7)]]
   \<and> snd (mcpRequest (demo_mcp_env (sse_response stream_body)) ''jwt'' ''tools/call'' None (mcp_init 0)) = Inr (Some (JNumber 7))
   \<and> snd (mcpRequest (demo_mcp_env (json_response payload_result)) ''jwt'' ''tools/call'' None (mcp_init 0)) = Inr (Some (JNumber 7))
   \<and> snd (mcpRequest (demo_mcp_env (sse_response error_stream_body)) ''jwt'' ''tools/call'' None (mcp_init 0)) = Inl (Error ''boom'')"
proof -
  have inc: "includes_str ''text/event-stream; charset=utf-8'' ''text/event-stream''"
    by code_simp
  have facts: "\<And>s. trim s = [] \<Longrightarrow> isl (JSON_parse (demo_mcp_env (sse_response b)) s)"
    "mcp_fetch (demo_mcp_env (sse_response b)) ''jwt''
           \<lparr>rq_jsonrpc = ''2.0'', rq_id = js_increment (requestId (mcp_init (0::nat))),
            rq_method = ''tools/call'', rq_params = None\<rparr> (mcp_world (mcp_init 0))
         = (1, Inr (sse_response b))"
    "hr_ok (sse_response b)"
    "hr_content_type (sse_response b) = Some ''text/event-stream; charset=utf-8''"
    "hr_body (sse_response b) = Inr b" for b
    by (simp_all add: demo_mcp_env_def demo_parse_blank mcp_init_def sse_response_def)
  have env: "JSON_parse (demo_mcp_env r) = demo_parse" for r
    by (simp add: demo_mcp_env_def)
  have dp: "data_payloads demo_parse stream_body
     = [JObject [(''jsonrpc'', JString ''2.0''), (''id'', JNumber 1),
                 (''error'', JObject [(''code'', JNumber (- 32000)),
                                      (''message'', JString ''boom'')])],
        JObject [(''jsonrpc'', JString ''2.0''), (''id'', JNumber 1), (''result'', JNumber 7)]]"
    by code_simp
  have dp_err: "data_payloads demo_parse error_stream_body
     = [JObject [(''jsonrpc'', JString ''2.0''), (''id'', JNumber 1), (''result'', JNumber 7)],
        JObject [(''jsonrpc'', JString ''2.0''), (''id'', JNumber 1),
                 (''error'', JObject [(''code'', JNumber (- 32000)),
                                      (''message'', JString ''boom'')])]]"
    by code_simp
  have "plain_result (demo_mcp_env (json_response payload_result)) payload_result
          = Inr (Some (JNumber 7))"
    by code_simp
  moreover have "\<not> includes_str ''application/json'' ''text/event-stream''"
    by code_simp
  ultimately have plain: "snd (mcpRequest (demo_mcp_env (json_response payload_result)) ''jwt'' ''tools/call'' None (mcp_init 0)) = Inr (Some (JNumber 7))"
    by (simp add: demo_mcpRequest json_response_def del: includes_str.simps)
  from C5_event_stream_payload[OF facts(1) facts(2) facts(3) facts(4) inc facts(5), of stream_body]
  have a: "snd (mcpRequest (demo_mcp_env (sse_response stream_body)) ''jwt'' ''tools/call'' None (mcp_init 0)) = Inr (Some (JNumber 7))"
    unfolding env dp by (simp add: get_prop_def)
  from C5_event_stream_payload[OF facts(1) facts(2) facts(3) facts(4) inc facts(5),
      of error_stream_body]
  have b: "snd (mcpRequest (demo_mcp_env (sse_response error_stream_body)) ''jwt'' ''tools/call'' None (mcp_init 0)) = Inl (Error ''boom'')"
    unfolding env dp_err by (simp add: get_prop_def)
  from dp a plain b show ?thesis
    by (intro conjI)
qed

text \<open>
  The claim as the specification words it fails in two ways. On a stream whose last
  well-formed \<^verbatim>\<open>data: \<close> line carries \<^verbatim>\<open>0\<close>, lines that parse exist and the last
  payload has no error object, and yet \<^verbatim>\<open>mcpRequest\<close> throws, where the plain-JSON
  path returns \<^verbatim>\<open>undefined\<close> for the body \<^verbatim>\<open>0\<close>. And a stream whose media type
  the server writes as \<^verbatim>\<open>Text/Event-Stream\<close> is read as plain JSON, so the request
  throws although the last \<^verbatim>\<open>data: \<close> line carries a result.
\<close>

theorem C5_counterexample:
  "data_payloads demo_parse zero_stream_body
     = [JObject [(''jsonrpc'', JString ''2.0''), (''id'', JNumber 1), (''result'', JNumber 7)],
        JNumber 0]
   \<and> snd (mcpRequest (demo_mcp_env (sse_response zero_stream_body)) ''jwt'' ''tools/call'' None (mcp_init 0)) = Inl (Error ''No valid JSON data in SSE response'')
   \<and> snd (mcpRequest (demo_mcp_env (json_response ''0'')) ''jwt'' ''tools/call'' None (mcp_init 0)) = Inr None
   \<and> data_payloads demo_parse short_stream_body
       = [JObject [(''jsonrpc'', JString ''2.0''), (''id'', JNumber 1), (''result'', JNumber 7)]]
   \<and> hr_content_type (capitals_response short_stream_body) = Some ''Text/Event-Stream''
   \<and> isl (snd (mcpRequest (demo_mcp_env (capitals_response short_stream_body)) ''jwt'' ''tools/call'' None (mcp_init 0)))"
proof -
  have a: "data_payloads demo_parse zero_stream_body
     = [JObject [(''jsonrpc'', JString ''2.0''), (''id'', JNumber 1), (''result'', JNumber 7)],
        JNumber 0]"
    by code_simp
  have inc: "includes_str ''text/event-stream; charset=utf-8'' ''text/event-stream''"
    "\<not> includes_str ''application/json'' ''text/event-stream''"
    "\<not> includes_str ''Text/Event-Stream'' ''text/event-stream''"
    by code_simp+
  have "sse_result (demo_mcp_env (sse_response zero_stream_body)) zero_stream_body
          = Inl (Error ''No valid JSON data in SSE response'')"
    by code_simp
  with inc have b: "snd (mcpRequest (demo_mcp_env (sse_response zero_stream_body)) ''jwt'' ''tools/call'' None (mcp_init 0)) = Inl (Error ''No valid JSON data in SSE response'')"
    by (simp add: demo_mcpRequest sse_response_def del: includes_str.simps)
  have "plain_result (demo_mcp_env (json_response ''0'')) ''0'' = Inr None"
    by code_simp
  with inc have c: "snd (mcpRequest (demo_mcp_env (json_response ''0'')) ''jwt'' ''tools/call'' None (mcp_init 0)) = Inr None"
    by (simp add: demo_mcpRequest json_response_def del: includes_str.simps)
  have d: "data_payloads demo_parse short_stream_body
       = [JObject [(''jsonrpc'', JString ''2.0''), (''id'', JNumber 1), (''result'', JNumber 7)]]"
    by code_simp
  have e: "hr_content_type (capitals_response short_stream_body) = Some ''Text/Event-Stream''"
    by (simp add: capitals_response_def)
  have "isl (plain_result (demo_mcp_env (capitals_response short_stream_body)) short_stream_body)"
    by code_simp
  with inc have f: "isl (snd (mcpRequest (demo_mcp_env (capitals_response short_stream_body)) ''jwt'' ''tools/call'' None (mcp_init 0)))"
    by (simp add: demo_mcpRequest capitals_response_def del: includes_str.simps)
  from a b c d e f show ?thesis
    by (intro conjI)
qed

subsection \<open>Request ids\<close>

lemma js_increment_min: "n \<le> 2 ^ 53 \<Longrightarrow> js_increment n = min (n + 1) (2 ^ 53)"
  by (simp add: js_increment_def)

lemma mcp_session_ids:
  assumes "requestId st \<le> 2 ^ 53"
  shows "requestId (mcp_session env calls st) = min (requestId st + length calls) (2 ^ 53)
       \<and> map rq_id (sent (mcp_session env calls st))
           = map rq_id (sent st)
             @ map (\<lambda>k. min (requestId st + Suc k) (2 ^ 53)) [0..<length calls]"
  using assms
proof (induction calls arbitrary: st)
  case Nil
  then show ?case by simp
next
  case (Cons call calls)
  obtain tok meth pars where call: "call = (tok, meth, pars)"
    by (cases call)
  let ?st1 = "fst (mcpRequest env tok meth pars st)"
  have id1: "requestId ?st1 = min (requestId st + 1) (2 ^ 53)"
    using Cons.prems by (simp add: mcpRequest_state js_increment_min)
  have sent1: "map rq_id (sent ?st1) = map rq_id (sent st) @ [min (requestId st + 1) (2 ^ 53)]"
    using Cons.prems by (simp add: mcpRequest_state js_increment_min)
  have le1: "requestId ?st1 \<le> 2 ^ 53"
    using id1 by simp
  have shift: "min (requestId ?st1 + Suc k) (2 ^ 53) = min (requestId st + Suc (Suc k)) (2 ^ 53)" for k
    using id1 Cons.prems by (simp add: min_def)
  have upt: "map (\<lambda>k. min (requestId st + Suc k) (2 ^ 53)) [0..<Suc (length calls)]
      = min (requestId st + 1) (2 ^ 53)
        # map (\<lambda>k. min (requestId st + Suc (Suc k)) (2 ^ 53)) [0..<length calls]"
    by (simp only: upt_conv_Cons[of 0 "Suc (length calls)", OF zero_less_Suc] list.map
          map_Suc_upt[symmetric] map_map comp_def Suc_eq_plus1[symmetric] add_Suc_right add_0_right)
  from Cons.IH[OF le1]
  have ih: "requestId (mcp_session env calls ?st1) = min (requestId ?st1 + length calls) (2 ^ 53)"
    "map rq_id (sent (mcp_session env calls ?st1))
       = map rq_id (sent ?st1)
         @ map (\<lambda>k. min (requestId ?st1 + Suc k) (2 ^ 53)) [0..<length calls]"
    by simp_all
  have a: "requestId (mcp_session env (call # calls) st)
             = min (requestId st + length (call # calls)) (2 ^ 53)"
    using ih(1) id1 Cons.prems by (simp add: call min_def)
  have b: "map rq_id (sent (mcp_session env (call # calls) st))
           = map rq_id (sent st)
             @ map (\<lambda>k. min (requestId st + Suc k) (2 ^ 53)) [0..<length (call # calls)]"
    unfolding call mcp_session.simps ih(2) sent1 shift
    using upt by simp
  from a b show ?case by simp
qed

lemma mcp_session_ids_init:
  "map rq_id (sent (mcp_session env calls (mcp_init w)))
     = map (\<lambda>k. min (Suc k) (2 ^ 53)) [0..<length calls]"
  using mcp_session_ids[of "mcp_init w" env calls]
  by (simp add: mcp_init_def)

lemma length_same_calls: "length (same_calls n) = n"
  by (simp add: same_calls_def)

text \<open>
  Claim C10. The requests of a session, counted from the load of the module, carry
  the ids 1, 2, 3, ... in the order they are sent: each id is strictly greater than
  every earlier one, and no two requests share an id. The session has at most \<open>2^53\<close>
  requests: up to there the increment of the counter, a JavaScript number, is exact.
\<close>

theorem C10_ids_strictly_increase:
  assumes "length calls \<le> 2 ^ 53"
  shows "map rq_id (sent (mcp_session env calls (mcp_init w))) = [1..<Suc (length calls)]
       \<and> sorted_wrt (<) (map rq_id (sent (mcp_session env calls (mcp_init w))))
       \<and> distinct (map rq_id (sent (mcp_session env calls (mcp_init w))))"
proof -
  have "map (\<lambda>k. min (Suc k) (2 ^ 53)) [0..<length calls] = map Suc [0..<length calls]"
    using assms by (intro map_cong) auto
  also have "\<dots> = [1..<Suc (length calls)]"
    by (simp only: map_Suc_upt One_nat_def)
  finally have ids: "map rq_id (sent (mcp_session env calls (mcp_init w))) = [1..<Suc (length calls)]"
    by (simp only: mcp_session_ids_init)
  show ?thesis
    unfolding ids by (intro conjI refl sorted_wrt_upt distinct_upt)
qed

theorem C10_witness:
  "length (same_calls 3) \<le> 2 ^ 53
   \<and> map rq_id (sent (mcp_session (demo_mcp_env (json_response payload_result)) (same_calls 3)
                      (mcp_init 0))) = [1, 2, 3]
   \<and> sorted_wrt (<) (map rq_id (sent (mcp_session (demo_mcp_env (json_response payload_result))
                                       (same_calls 3) (mcp_init 0))))
   \<and> distinct (map rq_id (sent (mcp_session (demo_mcp_env (json_response payload_result))
                                  (same_calls 3) (mcp_init 0))))"
proof -
  have h: "length (same_calls 3) \<le> 2 ^ 53"
    by (simp add: length_same_calls)
  have u: "[1..<Suc (length (same_calls 3))] = [1, 2, 3]"
    by (simp add: length_same_calls upt_rec)
  from C10_ids_strictly_increase[OF h, of "demo_mcp_env (json_response payload_result)" 0] h u
  show ?thesis by simp
qed

section \<open>Properties of the credential manager\<close>

subsection \<open>The cached credential\<close>

text \<open>
  Claim C7. If a credential is cached (\<open>current_token\<close>: the token reference holds a
  string that the code's test \<^verbatim>\<open>tokenRef.current &&\<close> accepts) and the clock is
  before the recorded expiry instant, \<^verbatim>\<open>getValidToken\<close> returns the cached value
  and leaves the state as it is: nothing is acquired. A second call at a later time
  \<open>w2\<close>, still before the expiry, returns the same value, again with no acquisition.
\<close>

theorem C7_cached_token_reused:
  assumes "current_token st = Some t"
    and "Date_now env (cm_world st) < tokenExpiryRef st"
    and "Date_now env w2 < tokenExpiryRef st"
  shows "getValidToken env st = (st, Inr t)
       \<and> getValidToken env (st\<lparr>cm_world := w2\<rparr>) = (st\<lparr>cm_world := w2\<rparr>, Inr t)
       \<and> acquisitions (cm_trace (fst (getValidToken env (st\<lparr>cm_world := w2\<rparr>))))
           = acquisitions (cm_trace st)"
  using assms
  by (simp add: getValidToken_def isTokenExpired_def current_token_def)

theorem C7_witness:
  "current_token cached_state = Some ''jwt-1''
   \<and> Date_now demo_cm_env (cm_world cached_state) < tokenExpiryRef cached_state
   \<and> Date_now demo_cm_env (5000, 1) < tokenExpiryRef cached_state
   \<and> getValidToken demo_cm_env cached_state = (cached_state, Inr ''jwt-1'')
   \<and> getValidToken demo_cm_env (cached_state\<lparr>cm_world := (5000, 1)\<rparr>)
       = (cached_state\<lparr>cm_world := (5000, 1)\<rparr>, Inr ''jwt-1'')
   \<and> acquisitions (cm_trace (fst (getValidToken demo_cm_env (cached_state\<lparr>cm_world := (5000, 1)\<rparr>))))
       = acquisitions (cm_trace cached_state)"
proof -
  have h1: "current_token cached_state = Some ''jwt-1''"
    by (simp add: cached_state_def current_token_def)
  have h3: "Date_now demo_cm_env (cm_world cached_state) < tokenExpiryRef cached_state"
    by (simp add: cached_state_def demo_cm_env_def)
  have h4: "Date_now demo_cm_env (5000, 1) < tokenExpiryRef cached_state"
    by (simp add: cached_state_def demo_cm_env_def)
  from C7_cached_token_reused[OF h1 h3 h4] h1 h3 h4 show ?thesis
    by simp
qed

subsection \<open>Refresh and retry\<close>

lemma acquire_trace:
  "\<exists>jwt. cm_trace (fst (acquire env st)) = cm_trace st @ [Acquire jwt]"
  unfolding acquire_def refresh_failed_def
  by (auto simp: Let_def split: prod.splits sum.splits)

lemma acquire_success_idle:
  "acquire env st = (st', Inr t) \<Longrightarrow> \<not> isRefreshingRef st'"
  unfolding acquire_def refresh_failed_def
  by (auto simp: Let_def split: prod.splits sum.splits)

lemma doRefreshToken_idle:
  assumes "isConfigured env" and "\<not> isRefreshingRef st"
  shows "doRefreshToken env st = acquire env (st\<lparr>isRefreshingRef := True\<rparr>)"
  using assms by (simp add: doRefreshToken_def)

lemma getValidToken_idle:
  assumes "isConfigured env" and "\<not> isRefreshingRef st"
    and "getValidToken env st = (st1, Inr t)"
  shows "\<not> isRefreshingRef st1"
proof (cases "getValidToken env st = (st, Inr t)")
  case True
  with assms show ?thesis by simp
next
  case False
  with assms(3) have "doRefreshToken env st = (st1, Inr t)"
    unfolding getValidToken_def by (auto split: option.splits if_splits)
  with assms(1,2) show ?thesis
    by (simp add: doRefreshToken_idle acquire_success_idle)
qed

lemma call_api_char:
  "call_api apiCall t st =
     (st\<lparr>cm_world := fst (apiCall t (cm_world st)), cm_trace := cm_trace st @ [ApiCall t]\<rparr>,
      snd (apiCall t (cm_world st)))"
  unfolding call_api_def by (simp split: prod.splits)

text \<open>
  Claim C6, as the code has it. Credentials are configured and no other refresh is in
  flight; \<^verbatim>\<open>getValidToken\<close> has given \<open>currentToken\<close> and the wrapped call has
  failed with \<open>err\<close>. If \<open>err\<close> is an \<^verbatim>\<open>Error\<close> whose message contains \<^verbatim>\<open>401\<close> or,
  in any letter case, \<^verbatim>\<open>unauthorized\<close>, \<^verbatim>\<open>authentication\<close> or \<^verbatim>\<open>token\<close>, then
  exactly one acquisition is attempted; when the refresh succeeds the call is made
  once more, with the new token, and its outcome (success or failure) is the outcome
  of \<^verbatim>\<open>withAutoRefresh\<close>; when the refresh fails its error is thrown and the call is
  not made again. For any other \<open>err\<close> nothing is acquired, the call is not made
  again and \<open>err\<close> is thrown.
\<close>

theorem C6_refresh_once_retry_once:
  assumes "isConfigured env"
    and "\<not> isRefreshingRef st"
    and "getValidToken env st = (st1, Inr currentToken)"
    and "apiCall currentToken (cm_world st1) = (w1, Inl err)"
  shows "(if isAuthError err then
            length (acquisitions (events_since st1 (fst (withAutoRefresh env apiCall st)))) = 1
            \<and> (case doRefreshToken env
                      (st1\<lparr>cm_world := w1, cm_trace := cm_trace st1 @ [ApiCall currentToken]\<rparr>) of
                  (st3, Inl e) \<Rightarrow>
                    api_calls (events_since st1 (fst (withAutoRefresh env apiCall st)))
                      = [currentToken]
                    \<and> snd (withAutoRefresh env apiCall st) = Inl e
                | (st3, Inr newToken) \<Rightarrow>
                    api_calls (events_since st1 (fst (withAutoRefresh env apiCall st)))
                      = [currentToken, newToken]
                    \<and> snd (withAutoRefresh env apiCall st) = snd (apiCall newToken (cm_world st3)))
          else
            acquisitions (events_since st1 (fst (withAutoRefresh env apiCall st))) = []
            \<and> api_calls (events_since st1 (fst (withAutoRefresh env apiCall st))) = [currentToken]
            \<and> snd (withAutoRefresh env apiCall st) = Inl err)"
proof -
  let ?st2 = "st1\<lparr>cm_world := w1, cm_trace := cm_trace st1 @ [ApiCall currentToken]\<rparr>"
  have first: "call_api apiCall currentToken st1 = (?st2, Inl err)"
    using assms(4) by (simp add: call_api_char)
  have idle2: "\<not> isRefreshingRef ?st2"
    using getValidToken_idle[OF assms(1,2,3)] by simp
  show ?thesis
  proof (cases "isAuthError err")
    case False
    have "withAutoRefresh env apiCall st = (?st2, Inl err)"
      unfolding withAutoRefresh_def using assms(3) first False by simp
    with False show ?thesis
      by (simp add: events_since_def)
  next
    case True
    obtain st3 r where refresh: "doRefreshToken env ?st2 = (st3, r)"
      by force
    from refresh have acq: "acquire env (?st2\<lparr>isRefreshingRef := True\<rparr>) = (st3, r)"
      using doRefreshToken_idle[OF assms(1) idle2] by simp
    from acquire_trace[of env "?st2\<lparr>isRefreshingRef := True\<rparr>"] acq
    obtain jwt where tr3: "cm_trace st3 = cm_trace st1 @ [ApiCall currentToken, Acquire jwt]"
      by auto
    show ?thesis
    proof (cases r)
      case (Inl e)
      have "withAutoRefresh env apiCall st = (st3, Inl e)"
        unfolding withAutoRefresh_def using assms(3) first True refresh Inl by simp
      with True refresh Inl tr3 show ?thesis
        by (simp add: events_since_def)
    next
      case (Inr newToken)
      have "withAutoRefresh env apiCall st = call_api apiCall newToken st3"
        unfolding withAutoRefresh_def using assms(3) first True refresh Inr by simp
      with True refresh Inr tr3 show ?thesis
        by (simp add: events_since_def call_api_char)
    qed
  qed
qed

theorem C6_witness:
  "isConfigured demo_cm_env
   \<and> \<not> isRefreshingRef cached_state
   \<and> getValidToken demo_cm_env cached_state = (cached_state, Inr ''jwt-1'')
   \<and> demo_apiCall ''jwt-1'' (cm_world cached_state)
       = ((1001, 1), Inl (Error ''API query failed: 401 - Unauthorized''))
   \<and> isAuthError (Error ''API query failed: 401 - Unauthorized'')
   \<and> length (acquisitions (events_since cached_state
                (fst (withAutoRefresh demo_cm_env demo_apiCall cached_state)))) = 1
   \<and> api_calls (events_since cached_state
                (fst (withAutoRefresh demo_cm_env demo_apiCall cached_state)))
       = [''jwt-1'', ''jwt-2'']
   \<and> snd (withAutoRefresh demo_cm_env demo_apiCall cached_state) = Inr ''rows''
   \<and> failing_apiCall ''jwt-1'' (cm_world cached_state)
       = ((1001, 1), Inl (Error ''API query failed: 500 - Server Error''))
   \<and> \<not> isAuthError (Error ''API query failed: 500 - Server Error'')
   \<and> acquisitions (events_since cached_state
                (fst (withAutoRefresh demo_cm_env failing_apiCall cached_state))) = []
   \<and> api_calls (events_since cached_state
                (fst (withAutoRefresh demo_cm_env failing_apiCall cached_state))) = [''jwt-1'']
   \<and> snd (withAutoRefresh demo_cm_env failing_apiCall cached_state)
       = Inl (Error ''API query failed: 500 - Server Error'')"
proof -
  let ?st2 = "cached_state\<lparr>cm_world := (1001, 1),
                cm_trace := cm_trace cached_state @ [ApiCall ''jwt-1'']\<rparr>"
  have h1: "isConfigured demo_cm_env"
    by (simp add: demo_cm_env_def)
  have h2: "\<not> isRefreshingRef cached_state"
    by (simp add: cached_state_def)
  have h3: "getValidToken demo_cm_env cached_state = (cached_state, Inr ''jwt-1'')"
    by (simp add: getValidToken_def isTokenExpired_def current_token_def cached_state_def
          demo_cm_env_def)
  have h4: "demo_apiCall ''jwt-1'' (cm_world cached_state)
       = ((1001, 1), Inl (Error ''API query failed: 401 - Unauthorized''))"
    by (simp add: demo_apiCall_def cached_state_def)
  have h4': "failing_apiCall ''jwt-1'' (cm_world cached_state)
       = ((1001, 1), Inl (Error ''API query failed: 500 - Server Error''))"
    by (simp add: failing_apiCall_def cached_state_def)
  have auth: "isAuthError (Error ''API query failed: 401 - Unauthorized'')"
    by code_simp
  have other: "\<not> isAuthError (Error ''API query failed: 500 - Server Error'')"
    by code_simp
  have "snd (doRefreshToken demo_cm_env ?st2) = Inr ''jwt-2''"
    by code_simp
  then obtain st3 where refresh: "doRefreshToken demo_cm_env ?st2 = (st3, Inr ''jwt-2'')"
    by (cases "doRefreshToken demo_cm_env ?st2") auto
  have retry: "snd (demo_apiCall ''jwt-2'' (cm_world st3)) = Inr ''rows''"
    by (simp add: demo_apiCall_def)
  from C6_refresh_once_retry_once[where apiCall = demo_apiCall, OF h1 h2 h3 h4] auth refresh retry
  have a: "length (acquisitions (events_since cached_state
                (fst (withAutoRefresh demo_cm_env demo_apiCall cached_state)))) = 1
      \<and> api_calls (events_since cached_state
                (fst (withAutoRefresh demo_cm_env demo_apiCall cached_state)))
          = [''jwt-1'', ''jwt-2'']
      \<and> snd (withAutoRefresh demo_cm_env demo_apiCall cached_state) = Inr ''rows''"
    by simp
  from C6_refresh_once_retry_once[where apiCall = failing_apiCall, OF h1 h2 h3 h4'] other
  have b: "acquisitions (events_since cached_state
                (fst (withAutoRefresh demo_cm_env failing_apiCall cached_state))) = []
      \<and> api_calls (events_since cached_state
                (fst (withAutoRefresh demo_cm_env failing_apiCall cached_state))) = [''jwt-1'']
      \<and> snd (withAutoRefresh demo_cm_env failing_apiCall cached_state)
          = Inl (Error ''API query failed: 500 - Server Error'')"
    by simp
  from h1 h2 h3 h4 h4' auth other a b show ?thesis
    by (intro conjI) simp_all
qed

text \<open>
  The claim as the specification words it fails when the forced acquisition itself
  fails: the call has failed with an authentication-class error, yet it is made only
  once, never retried, and the caller gets the error of the acquisition.
\<close>

theorem C6_counterexample:
  "isAuthError (Error ''API query failed: 401 - Unauthorized'')
   \<and> snd (demo_apiCall ''jwt-1'' (cm_world cached_state))
       = Inl (Error ''API query failed: 401 - Unauthorized'')
   \<and> api_calls (cm_trace (fst (withAutoRefresh broken_cm_env demo_apiCall cached_state)))
       = [''jwt-1'']
   \<and> acquisitions (cm_trace (fst (withAutoRefresh broken_cm_env demo_apiCall cached_state)))
       = [Inl (Error ''Failed to generate JWT from server'')]
   \<and> snd (withAutoRefresh broken_cm_env demo_apiCall cached_state)
       = Inl (Error ''Failed to generate JWT from server'')"
proof -
  have a: "isAuthError (Error ''API query failed: 401 - Unauthorized'')"
    by code_simp
  have b: "snd (demo_apiCall ''jwt-1'' (cm_world cached_state))
       = Inl (Error ''API query failed: 401 - Unauthorized'')"
    by code_simp
  have c: "api_calls (cm_trace (fst (withAutoRefresh broken_cm_env demo_apiCall cached_state)))
       = [''jwt-1'']"
    by code_simp
  have d: "acquisitions (cm_trace (fst (withAutoRefresh broken_cm_env demo_apiCall cached_state)))
       = [Inl (Error ''Failed to generate JWT from server'')]"
    by code_simp
  have e: "snd (withAutoRefresh broken_cm_env demo_apiCall cached_state)
       = Inl (Error ''Failed to generate JWT from server'')"
    by code_simp
  from a b c d e show ?thesis by simp
qed

end
